theory Spec2Isabelle
  imports Main "HOL-Library.Word" "HOL-Library.Multiset"
begin

section \<open>JavaScript strings\<close>

text \<open>
  A JavaScript string is a sequence of UTF-16 code units. The regular expressions and
  \<^verbatim>\<open>replaceAll\<close> calls of the source work on code units, so a string is a list of 16-bit
  words. \<open>str\<close> embeds an ASCII literal; a literal of the source with characters beyond
  ASCII is written as the list of its code units.
\<close>

type_synonym jschar = "16 word"
type_synonym jsstring = "jschar list"

definition str :: "string \<Rightarrow> jsstring" where
  "str s = map of_char s"

text \<open>\<^verbatim>\<open>parts.join(sep)\<close> on an array of strings.\<close>

fun join :: "jsstring \<Rightarrow> jsstring list \<Rightarrow> jsstring" where
  "join sep [] = []"
| "join sep [x] = x"
| "join sep (x # y # ys) = x @ sep @ join sep (y # ys)"

text \<open>
  \<^verbatim>\<open>s.replaceAll(p, r)\<close> for a pattern \<open>p\<close> of one code unit, which is what every call of
  the source passes; no replacement string of the source contains \<^verbatim>\<open>$\<close>.
\<close>

definition replaceAll :: "jschar \<Rightarrow> jsstring \<Rightarrow> jsstring \<Rightarrow> jsstring" where
  "replaceAll p r s = concat (map (\<lambda>c. if c = p then r else [c]) s)"

text \<open>\<^verbatim>\<open>s.repeat(n)\<close> for a count that is a natural number.\<close>

definition repeat :: "jsstring \<Rightarrow> nat \<Rightarrow> jsstring" where
  "repeat s n = concat (replicate n s)"

text \<open>
  \<^verbatim>\<open>String(n)\<close> and \<^verbatim>\<open>`${n}`\<close> for a number, rendered in decimal. An array length is a
  natural number below \<open>2 ^ 32\<close>, which JavaScript prints in full, as \<open>showNat\<close> does. The
  fields \<^verbatim>\<open>order\<close>, \<^verbatim>\<open>line\<close> and \<^verbatim>\<open>indent\<close> are of type \<^verbatim>\<open>number\<close>; the model takes them
  to be integers of magnitude below \<open>10 ^ 21\<close>, which is where \<open>showInt\<close> agrees with
  JavaScript (a larger number is printed in exponent notation, a fraction with its decimal
  point, and neither is covered here).
\<close>

function showNat :: "nat \<Rightarrow> jsstring" where
  "showNat n = (if n < 10 then [of_nat (48 + n)]
                else showNat (n div 10) @ [of_nat (48 + n mod 10)])"
  by pat_completeness auto
termination
  by (relation "measure id") auto

declare showNat.simps [simp del]

definition showInt :: "int \<Rightarrow> jsstring" where
  "showInt i = (if i < 0 then str ''-'' @ showNat (nat (- i)) else showNat (nat i))"

section \<open>The manifest (types.ts)\<close>

text \<open>
  Each interface is a record; a field name carries a prefix for its record, since the
  interfaces share the names \<^verbatim>\<open>id\<close>, \<^verbatim>\<open>name\<close> and \<^verbatim>\<open>description\<close>. An optional field
  \<^verbatim>\<open>f?: T\<close> is a \<open>T option\<close>, \<open>None\<close> standing for an absent field (\<^verbatim>\<open>undefined\<close>).
  A \<^verbatim>\<open>number\<close> of the manifest is an integer. A union of string literals is a datatype
  whose constructors are the literals, capitalised.
\<close>

record CodeRef =
  cr_file :: jsstring
  cr_function :: "jsstring option"
  cr_line :: "int option"

record FlowStep =
  fs_id :: jsstring
  fs_order :: int
  fs_name :: jsstring
  fs_description :: "jsstring option"
  fs_rules :: "jsstring list option"

record Flow =
  fl_id :: jsstring
  fl_name :: jsstring
  fl_description :: "jsstring option"
  fl_trigger :: "jsstring option"
  fl_steps :: "FlowStep list"
  fl_code_ref :: "CodeRef option"

datatype Priority = High | Medium | Low

datatype Operation = OpC | OpR | OpU | OpD

record Affects =
  af_entities :: "jsstring list option"
  af_fields :: "jsstring list option"
  af_operations :: "Operation list option"

record Rule =
  ru_id :: jsstring
  ru_name :: jsstring
  ru_description :: jsstring
  ru_priority :: Priority
  ru_category :: "jsstring option"
  ru_constraints :: "jsstring list option"
  ru_effects :: "jsstring list option"
  ru_affects :: "Affects option"
  ru_code_ref :: "CodeRef option"

record StateDefinition =
  sd_id :: jsstring
  sd_name :: jsstring
  sd_description :: "jsstring option"
  sd_is_initial :: "bool option"
  sd_is_final :: "bool option"

record StateTransition =
  st_from :: jsstring
  st_to :: jsstring
  st_trigger :: jsstring
  st_description :: "jsstring option"
  st_rules :: "jsstring list option"

record StateMachine =
  sm_id :: jsstring
  sm_name :: jsstring
  sm_description :: "jsstring option"
  sm_entity :: jsstring
  sm_field :: jsstring
  sm_states :: "StateDefinition list"
  sm_transitions :: "StateTransition list"

datatype StepType = Comment | Action | Condition | Loop | Call | Return | Error

record PseudocodeStep =
  ps_indent :: int
  ps_text :: jsstring
  ps_type :: StepType

datatype CallType = Api | Db | Internal | Schedule

record ApiCall =
  ac_name :: jsstring
  ac_type :: CallType
  ac_method :: "jsstring option"
  ac_endpoint :: "jsstring option"
  ac_table :: "jsstring option"
  ac_description :: "jsstring option"

record Pseudocode =
  pc_id :: jsstring
  pc_name :: jsstring
  pc_description :: "jsstring option"
  pc_params :: "jsstring list option"
  pc_returns :: "jsstring option"
  pc_steps :: "PseudocodeStep list"
  pc_calls :: "ApiCall list"
  pc_code_ref :: "CodeRef option"

record Module =
  mod_id :: jsstring
  mod_name :: jsstring
  mod_description :: jsstring
  mod_tags :: "jsstring list option"
  mod_dependencies :: "jsstring list option"
  mod_code_refs :: "CodeRef list option"
  mod_flows :: "Flow list"
  mod_rules :: "Rule list"
  mod_state_machines :: "StateMachine list"
  mod_pseudocodes :: "Pseudocode list"

record EnumOption =
  eo_value :: jsstring
  eo_label :: jsstring

record Reference =
  rf_model :: jsstring
  rf_field :: jsstring

record ModelField =
  mf_name :: jsstring
  mf_type :: jsstring
  mf_label :: jsstring
  mf_description :: "jsstring option"
  mf_required :: "bool option"
  mf_unique :: "bool option"
  mf_enum_options :: "EnumOption list option"
  mf_references :: "Reference option"

datatype SourceType = Yao | Prisma | Typeorm | Sql | Other

record ModelSource =
  ms_file :: jsstring
  ms_type :: SourceType

record DataModel =
  dm_id :: jsstring
  dm_name :: jsstring
  dm_table :: jsstring
  dm_description :: jsstring
  dm_entity :: "jsstring option"
  dm_fields :: "ModelField list"
  dm_source :: "ModelSource option"

text \<open>
  Modelled from the spec: the declaration of the entity fields \<^verbatim>\<open>models\<close>,
  \<^verbatim>\<open>key_fields\<close> and \<^verbatim>\<open>statuses\<close>, which the outline emitter reads and the interface
  \<^verbatim>\<open>Entity\<close> of types.ts does not declare (the spec: entities "with key fields and status
  enumerations"). They are optional here, as extension fields are; a key field has a
  name, a label, a description and an optional source, a status a label, a value and an
  optional description.
\<close>

record KeyField =
  kf_name :: jsstring
  kf_label :: jsstring
  kf_description :: jsstring
  kf_source :: "jsstring option"

record EntityStatus =
  es_label :: jsstring
  es_value :: jsstring
  es_description :: "jsstring option"

record Entity =
  en_id :: jsstring
  en_name :: jsstring
  en_description :: "jsstring option"
  en_models :: "jsstring list option"
  en_key_fields :: "KeyField list option"
  en_statuses :: "EntityStatus list option"

record ProjectInfo =
  pi_id :: jsstring
  pi_name :: jsstring
  pi_description :: jsstring
  pi_version :: jsstring
  pi_updated_at :: jsstring

record GlossaryEntry =
  ge_term :: jsstring
  ge_description :: jsstring

datatype ChangeType = Init | Add | Modify | Remove

record ChangelogEntry =
  cl_date :: jsstring
  cl_type :: ChangeType
  cl_summary :: jsstring
  cl_details :: "jsstring option"

text \<open>
  The glossary is a \<^verbatim>\<open>Record<string, GlossaryEntry>\<close>: its entries in the order in which
  \<^verbatim>\<open>Object.entries\<close> enumerates them.
\<close>

record LogicManifest =
  man_schema :: jsstring
  man_project :: ProjectInfo
  man_modules :: "Module list"
  man_data_models :: "DataModel list"
  man_entities :: "Entity list option"
  man_glossary :: "(jsstring \<times> GlossaryEntry) list"
  man_changelog :: "ChangelogEntry list"

text \<open>Truthiness of an optional string: present and not empty.\<close>

fun truthy :: "jsstring option \<Rightarrow> bool" where
  "truthy None = False"
| "truthy (Some s) = (s \<noteq> [])"

text \<open>\<^verbatim>\<open>xs ?? []\<close> for an optional array.\<close>

fun orEmpty :: "'a list option \<Rightarrow> 'a list" where
  "orEmpty None = []"
| "orEmpty (Some xs) = xs"

section \<open>Sanitizers of diagrams.ts\<close>

text \<open>The character class \<^verbatim>\<open>[a-zA-Z0-9_]\<close> and the class \<^verbatim>\<open>[0-9]\<close>.\<close>

definition isWordChar :: "jschar \<Rightarrow> bool" where
  "isWordChar c \<longleftrightarrow>
     (0x61 \<le> c \<and> c \<le> 0x7A) \<or> (0x41 \<le> c \<and> c \<le> 0x5A) \<or> (0x30 \<le> c \<and> c \<le> 0x39) \<or> c = 0x5F"

definition isDigit :: "jschar \<Rightarrow> bool" where
  "isDigit c \<longleftrightarrow> 0x30 \<le> c \<and> c \<le> 0x39"

text \<open>
  \<^verbatim>\<open>safeNodeId(prefix, raw)\<close>: \<open>ident\<close> is \<^verbatim>\<open>raw.replace(/[^a-zA-Z0-9_]/g, '_')\<close>,
  \<open>normalized\<close> gets a leading underscore when \<^verbatim>\<open>/^[0-9]/\<close> matches, and the result is
  \<^verbatim>\<open>`${prefix}${normalized}` || `${prefix}x`\<close>, where the left operand of \<^verbatim>\<open>||\<close> is falsy
  exactly when it is the empty string.
\<close>

definition safeNodeId :: "jsstring \<Rightarrow> jsstring \<Rightarrow> jsstring" where
  "safeNodeId prefix raw =
     (let ident = map (\<lambda>c. if isWordChar c then c else 0x5F) raw;
          normalized = (case ident of [] \<Rightarrow> ident
                        | c # _ \<Rightarrow> if isDigit c then str ''_'' @ ident else ident)
      in if prefix @ normalized \<noteq> [] then prefix @ normalized else prefix @ str ''x'')"

text \<open>
  \<^verbatim>\<open>escapeLabel\<close>: backslash doubled, then double quote to single quote, then newline to
  \<^verbatim>\<open><br/>\<close>.
\<close>

definition escapeLabel :: "jsstring \<Rightarrow> jsstring" where
  "escapeLabel text =
     replaceAll 0x0A (str ''<br/>'')
       (replaceAll 0x22 [0x27]
         (replaceAll 0x5C [0x5C, 0x5C] text))"

text \<open>
  \<^verbatim>\<open>escapeMindmapText\<close>: \<open>escapeLabel\<close>, then the ASCII brackets to U+FF08, U+FF09, U+3010
  and U+3011.
\<close>

definition escapeMindmapText :: "jsstring \<Rightarrow> jsstring" where
  "escapeMindmapText text =
     replaceAll 0x5D [0x3011]
       (replaceAll 0x5B [0x3010]
         (replaceAll 0x29 [0xFF09]
           (replaceAll 0x28 [0xFF08] (escapeLabel text))))"

text \<open>
  \<^verbatim>\<open>formatCodeRef\<close> of diagrams.ts: the empty string for an absent reference, otherwise
  file, function (when truthy) and line (when a number) joined by a colon.
\<close>

definition formatCodeRef :: "CodeRef option \<Rightarrow> jsstring" where
  "formatCodeRef ref =
     (case ref of None \<Rightarrow> []
      | Some r \<Rightarrow>
          (let parts = [cr_file r];
               parts = (if truthy (cr_function r) then parts @ [the (cr_function r)] else parts);
               parts = (case cr_line r of Some n \<Rightarrow> parts @ [showInt n] | None \<Rightarrow> parts)
           in join (str '':'') parts))"

text \<open>
  \<^verbatim>\<open>new Set(xs)\<close> followed by \<^verbatim>\<open>Array.from\<close>: a JavaScript set keeps its members in
  insertion order, and adding a member it has changes nothing.
\<close>

definition newSet :: "jsstring list \<Rightarrow> jsstring list" where
  "newSet xs = foldl (\<lambda>seen x. if x \<in> set seen then seen else seen @ [x]) [] xs"

text \<open>\<^verbatim>\<open>uniqueStrings(xs)\<close> is \<^verbatim>\<open>Array.from(new Set(xs.filter(Boolean)))\<close>.\<close>

definition uniqueStrings :: "jsstring list \<Rightarrow> jsstring list" where
  "uniqueStrings xs = newSet (filter (\<lambda>x. x \<noteq> []) xs)"

section \<open>Literals of the source beyond ASCII\<close>

definition zh_external_unknown_module :: jsstring where
  \<comment> \<open>U+5916 U+90E8 / U+672A U+77E5 U+6A21 U+5757: "external/unknown module"\<close>
  "zh_external_unknown_module = [0x5916, 0x90E8] @ str ''/'' @ [0x672A, 0x77E5, 0x6A21, 0x5757]"

definition zh_trigger_colon :: jsstring where
  \<comment> \<open>U+89E6 U+53D1 U+FF1A: "trigger" and a full-width colon\<close>
  "zh_trigger_colon = [0x89E6, 0x53D1, 0xFF1A]"

definition zh_rules_colon :: jsstring where
  \<comment> \<open>U+89C4 U+5219 U+FF1A: "rules" and a full-width colon\<close>
  "zh_rules_colon = [0x89C4, 0x5219, 0xFF1A]"

definition zh_comma :: jsstring where
  \<comment> \<open>U+3001: the enumeration comma\<close>
  "zh_comma = [0x3001]"

definition zh_no_steps :: jsstring where
  \<comment> \<open>U+6682 U+65E0 U+6B65 U+9AA4: "no steps yet"\<close>
  "zh_no_steps = [0x6682, 0x65E0, 0x6B65, 0x9AA4]"

definition zh_code_colon :: jsstring where
  \<comment> \<open>U+4EE3 U+7801 U+FF1A: "code" and a full-width colon\<close>
  "zh_code_colon = [0x4EE3, 0x7801, 0xFF1A]"

definition zh_lparen :: jsstring where
  \<comment> \<open>U+FF08: full-width left parenthesis\<close>
  "zh_lparen = [0xFF08]"

definition zh_rparen :: jsstring where
  \<comment> \<open>U+FF09: full-width right parenthesis\<close>
  "zh_rparen = [0xFF09]"

definition zh_project_colon :: jsstring where
  \<comment> \<open>U+9879 U+76EE U+FF1A: "project" and a full-width colon\<close>
  "zh_project_colon = [0x9879, 0x76EE, 0xFF1A]"

definition zh_modules :: jsstring where
  \<comment> \<open>U+6A21 U+5757: "modules"\<close>
  "zh_modules = [0x6A21, 0x5757]"

definition zh_dependencies :: jsstring where
  \<comment> \<open>U+4F9D U+8D56: "dependencies"\<close>
  "zh_dependencies = [0x4F9D, 0x8D56]"

definition zh_code_entries :: jsstring where
  \<comment> \<open>U+4EE3 U+7801 U+5165 U+53E3: "code entries"\<close>
  "zh_code_entries = [0x4EE3, 0x7801, 0x5165, 0x53E3]"

definition zh_flows :: jsstring where
  \<comment> \<open>U+6D41 U+7A0B: "flows"\<close>
  "zh_flows = [0x6D41, 0x7A0B]"

definition zh_rules :: jsstring where
  \<comment> \<open>U+89C4 U+5219: "rules"\<close>
  "zh_rules = [0x89C4, 0x5219]"

definition zh_state_machines :: jsstring where
  \<comment> \<open>U+72B6 U+6001 U+673A: "state machines"\<close>
  "zh_state_machines = [0x72B6, 0x6001, 0x673A]"

definition zh_pseudocodes :: jsstring where
  \<comment> \<open>U+4F2A U+4EE3 U+7801: "pseudocode"\<close>
  "zh_pseudocodes = [0x4F2A, 0x4EE3, 0x7801]"

definition zh_entities :: jsstring where
  \<comment> \<open>U+5B9E U+4F53: "entities"\<close>
  "zh_entities = [0x5B9E, 0x4F53]"

definition zh_data_models :: jsstring where
  \<comment> \<open>U+6570 U+636E U+6A21 U+578B: "data models"\<close>
  "zh_data_models = [0x6570, 0x636E, 0x6A21, 0x578B]"

definition zh_source_colon :: jsstring where
  \<comment> \<open>U+6765 U+6E90 U+FF1A: "source" and a full-width colon\<close>
  "zh_source_colon = [0x6765, 0x6E90, 0xFF1A]"

definition nl :: jsstring where
  "nl = [0x0A]"

section \<open>generateProjectMindmap\<close>

text \<open>
  The body of the loop over a module's flows, rules or pseudocodes: the name, and the
  code location when \<open>formatCodeRef\<close> gives a non-empty string.
\<close>

definition mindmapNamed :: "jsstring list \<Rightarrow> jsstring \<Rightarrow> CodeRef option \<Rightarrow> jsstring list" where
  "mindmapNamed lines name code_ref =
     (let lines = lines @ [str ''          '' @ escapeMindmapText name];
          code = formatCodeRef code_ref
      in if code \<noteq> []
         then lines @ [str ''            '' @ zh_code_colon @ escapeMindmapText code]
         else lines)"

text \<open>The body of the loop over \<^verbatim>\<open>manifest.modules\<close>.\<close>

definition mindmapModule :: "jsstring list \<Rightarrow> Module \<Rightarrow> jsstring list" where
  "mindmapModule lines m =
     (let mTitle = escapeMindmapText (mod_name m @ str '' ('' @ mod_id m @ str '')'');
          lines = lines @ [str ''      '' @ mTitle];
          lines = (if mod_dependencies m \<noteq> None \<and> length (the (mod_dependencies m)) > 0
                   then foldl (\<lambda>lines dep. lines @ [str ''          '' @ escapeMindmapText dep])
                          (lines @ [str ''        '' @ zh_dependencies])
                          (uniqueStrings (the (mod_dependencies m)))
                   else lines);
          moduleCodeRefs = uniqueStrings
            (map (\<lambda>r. formatCodeRef (Some r)) (orEmpty (mod_code_refs m)));
          lines = (if length moduleCodeRefs > 0
                   then foldl (\<lambda>lines c. lines @ [str ''          '' @ escapeMindmapText c])
                          (lines @ [str ''        '' @ zh_code_entries]) moduleCodeRefs
                   else lines);
          lines = (if length (mod_flows m) > 0
                   then foldl (\<lambda>lines f. mindmapNamed lines (fl_name f) (fl_code_ref f))
                          (lines @ [str ''        '' @ zh_flows]) (mod_flows m)
                   else lines);
          lines = (if length (mod_rules m) > 0
                   then foldl (\<lambda>lines r. mindmapNamed lines (ru_name r) (ru_code_ref r))
                          (lines @ [str ''        '' @ zh_rules]) (mod_rules m)
                   else lines);
          lines = (if length (mod_state_machines m) > 0
                   then foldl (\<lambda>lines sm.
                            lines @ [str ''          '' @
                              escapeMindmapText (sm_name sm @ zh_lparen @ sm_entity sm @ str ''.'' @
                                                 sm_field sm @ zh_rparen)])
                          (lines @ [str ''        '' @ zh_state_machines]) (mod_state_machines m)
                   else lines)
      in if length (mod_pseudocodes m) > 0
         then foldl (\<lambda>lines pc. mindmapNamed lines (pc_name pc) (pc_code_ref pc))
                (lines @ [str ''        '' @ zh_pseudocodes]) (mod_pseudocodes m)
         else lines)"

text \<open>The body of the loop over \<^verbatim>\<open>manifest.data_models\<close>.\<close>

definition mindmapDataModel :: "jsstring list \<Rightarrow> DataModel \<Rightarrow> jsstring list" where
  "mindmapDataModel lines dm =
     (let label = (if dm_table dm \<noteq> [] then dm_name dm @ str '' ('' @ dm_table dm @ str '')''
                   else dm_name dm);
          lines = lines @ [str ''      '' @ escapeMindmapText label];
          src = (case dm_source dm of None \<Rightarrow> []
                 | Some so \<Rightarrow> if ms_file so \<noteq> [] then ms_file so else [])
      in if src \<noteq> []
         then lines @ [str ''        '' @ zh_source_colon @ escapeMindmapText src]
         else lines)"

definition projectMindmapLines :: "LogicManifest \<Rightarrow> jsstring list" where
  "projectMindmapLines manifest =
     (let lines = [str ''mindmap''];
          projectTitle = escapeMindmapText
            (zh_project_colon @ pi_name (man_project manifest) @ str '' ('' @
             pi_id (man_project manifest) @ str '')'');
          lines = lines @ [str ''  root(('' @ projectTitle @ str ''))''];
          lines = lines @ [str ''    '' @ zh_modules];
          lines = foldl mindmapModule lines (man_modules manifest);
          lines = (if man_entities manifest \<noteq> None \<and> length (the (man_entities manifest)) > 0
                   then foldl (\<lambda>lines e.
                            lines @ [str ''      '' @ escapeMindmapText (en_name e) @ str '' ('' @
                                     escapeMindmapText (en_id e) @ str '')''])
                          (lines @ [str ''    '' @ zh_entities]) (the (man_entities manifest))
                   else lines)
      in if length (man_data_models manifest) > 0
         then foldl mindmapDataModel (lines @ [str ''    '' @ zh_data_models])
                (man_data_models manifest)
         else lines)"

definition generateProjectMindmap :: "LogicManifest \<Rightarrow> jsstring" where
  "generateProjectMindmap manifest = join nl (projectMindmapLines manifest)"

section \<open>generateModuleDependencyGraph\<close>

text \<open>
  The body of the inner loop over \<^verbatim>\<open>uniqueStrings(m.dependencies ?? [])\<close>: look the
  dependency up, declare an external node when it is no module, push the edge.
\<close>

definition dependencyEdge ::
  "(jsstring \<rightharpoonup> Module) \<Rightarrow> jsstring \<Rightarrow> jsstring list \<Rightarrow> jsstring \<Rightarrow> jsstring list" where
  \<open>dependencyEdge byId from lines dep =
     (let depMod = byId dep;
          to = (case depMod of Some dm \<Rightarrow> safeNodeId (str ''mod_'') (mod_id dm)
                | None \<Rightarrow> safeNodeId (str ''ext_'') dep);
          lines = (if depMod = None
                   then lines @ [str ''  '' @ to @ str ''["'' @ escapeLabel dep @ str ''<br/>('' @
                                 zh_external_unknown_module @ str '')"]'']
                   else lines)
      in lines @ [str ''  '' @ from @ str '' --> '' @ to])\<close>

definition moduleDependencyLines :: "LogicManifest \<Rightarrow> jsstring list" where
  \<open>moduleDependencyLines manifest =
     (let lines = [str ''flowchart LR''];
          byId = foldl (\<lambda>byId m. byId(mod_id m \<mapsto> m)) Map.empty (man_modules manifest);
          lines = foldl (\<lambda>lines m.
                    lines @ [str ''  '' @ safeNodeId (str ''mod_'') (mod_id m) @ str ''["'' @
                             escapeLabel (mod_name m) @ str ''<br/>('' @ escapeLabel (mod_id m) @
                             str '')"]''])
                    lines (man_modules manifest);
          lines = foldl (\<lambda>lines m.
                    foldl (dependencyEdge byId (safeNodeId (str ''mod_'') (mod_id m))) lines
                      (uniqueStrings (orEmpty (mod_dependencies m))))
                    lines (man_modules manifest)
      in lines)\<close>

definition generateModuleDependencyGraph :: "LogicManifest \<Rightarrow> jsstring" where
  "generateModuleDependencyGraph manifest = join nl (moduleDependencyLines manifest)"

section \<open>generateFlowchartForFlow\<close>

text \<open>
  \<^verbatim>\<open>new Map(rules.map(r => [r.id, r]))\<close>: a later rule overwrites an earlier one of the
  same id.
\<close>

definition rulesById :: "Rule list \<Rightarrow> (jsstring \<rightharpoonup> Rule)" where
  "rulesById rules = foldl (\<lambda>mp r. mp(ru_id r \<mapsto> r)) Map.empty rules"

text \<open>
  The label of a step, \<^verbatim>\<open>parts.join('\n')\<close>: order and name, the description when
  truthy, and the names of the step's rules (the raw id for an unknown rule) when there
  are any.
\<close>

definition flowStepLabel :: "(jsstring \<rightharpoonup> Rule) \<Rightarrow> FlowStep \<Rightarrow> jsstring" where
  "flowStepLabel rules s =
     (let ruleNames = uniqueStrings
            (map (\<lambda>rid. case rules rid of Some r \<Rightarrow> ru_name r | None \<Rightarrow> rid)
               (orEmpty (fs_rules s)));
          parts = [showInt (fs_order s) @ str ''. '' @ fs_name s];
          parts = (if truthy (fs_description s) then parts @ [the (fs_description s)] else parts);
          parts = (if length ruleNames > 0
                   then parts @ [zh_rules_colon @ join zh_comma ruleNames] else parts)
      in join nl parts)"

text \<open>
  The body of the loop over the sorted steps, on the pair of \<^verbatim>\<open>lines\<close> and
  \<^verbatim>\<open>stepIds\<close>; \<open>i\<close> is the loop index and \<open>s\<close> is \<^verbatim>\<open>sorted[i]\<close>.
\<close>

definition flowStepNode ::
  "(jsstring \<rightharpoonup> Rule) \<Rightarrow> jsstring list \<times> jsstring list \<Rightarrow> nat \<times> FlowStep \<Rightarrow>
   jsstring list \<times> jsstring list" where
  \<open>flowStepNode rules st is =
     (let lines = fst st; stepIds = snd st; i = fst is; s = snd is;
          ident = str ''S'' @ showNat (i + 1);
          stepIds = stepIds @ [ident]
      in (lines @ [str ''  '' @ ident @ str ''["'' @ escapeLabel (flowStepLabel rules s) @ str ''"]''],
          stepIds))\<close>

text \<open>The title node, the trigger node and the edge between them.\<close>

definition flowchartHeader :: "Flow \<Rightarrow> jsstring list" where
  \<open>flowchartHeader flow =
     (let lines = [str ''flowchart TD''];
          titleId = str ''T'';
          lines = lines @ [str ''  '' @ titleId @ str ''["'' @ escapeLabel (fl_name flow) @ str ''"]''];
          triggerId = str ''TR'';
          triggerLabel = (if truthy (fl_trigger flow) then zh_trigger_colon @ the (fl_trigger flow)
                          else zh_trigger_colon @ str ''-'');
          lines = lines @ [str ''  '' @ triggerId @ str ''(["'' @ escapeLabel triggerLabel @ str ''"])'']
      in lines @ [str ''  '' @ titleId @ str '' --> '' @ triggerId])\<close>

text \<open>The last block: the code-location node and its dotted edge, when there is a code
  reference.\<close>

definition flowchartCode :: "Flow \<Rightarrow> jsstring list \<Rightarrow> jsstring list" where
  \<open>flowchartCode flow lines =
     (let code = formatCodeRef (fl_code_ref flow)
      in if code \<noteq> []
         then lines @ [str ''  CODE["'' @ escapeLabel (zh_code_colon @ code) @ str ''"]'',
                       str ''  T -.-> CODE'']
         else lines)\<close>

text \<open>
  \<^verbatim>\<open>[...flow.steps].sort((a, b) => a.order - b.order)\<close>: the sort of an array is stable,
  and the comparator orders by \<^verbatim>\<open>order\<close>, so the result is the stable sort by that key.
\<close>

definition flowchartLines :: "Flow \<Rightarrow> Rule list \<Rightarrow> jsstring list" where
  \<open>flowchartLines flow rules =
     (let lines = flowchartHeader flow;
          sorted = sort_key fs_order (fl_steps flow);
          st = foldl (flowStepNode (rulesById rules)) (lines, []) (enumerate 0 sorted);
          lines = fst st; stepIds = snd st;
          lines = (if length stepIds = 0
                   then lines @ [str ''  EMPTY["'' @ zh_no_steps @ str ''"]'',
                                 str ''  TR --> EMPTY'']
                   else foldl (\<lambda>lines i.
                          lines @ [str ''  '' @ stepIds ! i @ str '' --> '' @ stepIds ! (i + 1)])
                          (lines @ [str ''  TR --> '' @ stepIds ! 0])
                          [0..<length stepIds - 1])
      in flowchartCode flow lines)\<close>

definition generateFlowchartForFlow :: "Flow \<Rightarrow> Rule list \<Rightarrow> jsstring" where
  "generateFlowchartForFlow flow rules = join nl (flowchartLines flow rules)"

section \<open>generateStateDiagram\<close>

text \<open>
  The alias table: \<^verbatim>\<open>aliasById.set(sm.states[i].id, `S${i + 1}`)\<close> for every index, a later
  state overwriting an earlier one of the same id.
\<close>

definition aliasById :: "StateMachine \<Rightarrow> (jsstring \<rightharpoonup> jsstring)" where
  "aliasById sm =
     foldl (\<lambda>mp i. mp(sd_id (sm_states sm ! i) \<mapsto> str ''S'' @ showNat (i + 1)))
       Map.empty [0..<length (sm_states sm)]"

text \<open>The expression \<^verbatim>\<open>aliasById.get(x) ?? safeNodeId('S', x)\<close>, which the source repeats.\<close>

definition aliasOf :: "(jsstring \<rightharpoonup> jsstring) \<Rightarrow> jsstring \<Rightarrow> jsstring" where
  "aliasOf aliases x = (case aliases x of Some a \<Rightarrow> a | None \<Rightarrow> safeNodeId (str ''S'') x)"




section \<open>The outline emitter (mindmapMarkdown.ts)\<close>

definition zh_description_colon :: jsstring where
  \<comment> \<open>U+8BF4 U+660E U+FF1A: "description" and a full-width colon\<close>
  "zh_description_colon = [0x8BF4, 0x660E, 0xFF1A]"

definition zh_tags_colon :: jsstring where
  \<comment> \<open>U+6807 U+7B7E U+FF1A: "tags" and a full-width colon\<close>
  "zh_tags_colon = [0x6807, 0x7B7E, 0xFF1A]"

definition zh_code_location_colon :: jsstring where
  \<comment> \<open>U+4EE3 U+7801 U+5B9A U+4F4D U+FF1A: "code location" and a full-width colon\<close>
  "zh_code_location_colon = [0x4EE3, 0x7801, 0x5B9A, 0x4F4D, 0xFF1A]"

definition zh_steps :: jsstring where
  \<comment> \<open>U+6B65 U+9AA4: "steps"\<close>
  "zh_steps = [0x6B65, 0x9AA4]"

definition zh_priority_colon :: jsstring where
  \<comment> \<open>U+4F18 U+5148 U+7EA7 U+FF1A: "priority" and a full-width colon\<close>
  "zh_priority_colon = [0x4F18, 0x5148, 0x7EA7, 0xFF1A]"

definition zh_high :: jsstring where
  "zh_high = [0x9AD8]"

definition zh_medium :: jsstring where
  "zh_medium = [0x4E2D]"

definition zh_low :: jsstring where
  "zh_low = [0x4F4E]"

definition zh_category_colon :: jsstring where
  \<comment> \<open>U+5206 U+7C7B U+FF1A: "category" and a full-width colon\<close>
  "zh_category_colon = [0x5206, 0x7C7B, 0xFF1A]"

definition zh_states :: jsstring where
  \<comment> \<open>U+72B6 U+6001: "states"\<close>
  "zh_states = [0x72B6, 0x6001]"

definition zh_initial :: jsstring where
  \<comment> \<open>U+521D U+59CB: "initial"\<close>
  "zh_initial = [0x521D, 0x59CB]"

definition zh_final :: jsstring where
  \<comment> \<open>U+7EC8 U+6001: "final"\<close>
  "zh_final = [0x7EC8, 0x6001]"

definition zh_transitions :: jsstring where
  \<comment> \<open>U+8F6C U+6362: "transitions"\<close>
  "zh_transitions = [0x8F6C, 0x6362]"

definition zh_returns_colon :: jsstring where
  \<comment> \<open>U+8FD4 U+56DE U+FF1A: "returns" and a full-width colon\<close>
  "zh_returns_colon = [0x8FD4, 0x56DE, 0xFF1A]"

definition zh_project_description_colon :: jsstring where
  \<comment> \<open>U+9879 U+76EE U+8BF4 U+660E U+FF1A: "project description" and a full-width colon\<close>
  "zh_project_description_colon = [0x9879, 0x76EE, 0x8BF4, 0x660E, 0xFF1A]"

definition zh_updated_at_colon :: jsstring where
  \<comment> \<open>U+66F4 U+65B0 U+65F6 U+95F4 U+FF1A: "updated at" and a full-width colon\<close>
  "zh_updated_at_colon = [0x66F4, 0x65B0, 0x65F6, 0x95F4, 0xFF1A]"

definition zh_related_models_colon :: jsstring where
  \<comment> \<open>U+5173 U+8054 U+6A21 U+578B U+FF1A: "related models" and a full-width colon\<close>
  "zh_related_models_colon = [0x5173, 0x8054, 0x6A21, 0x578B, 0xFF1A]"

definition zh_key_fields :: jsstring where
  \<comment> \<open>U+6838 U+5FC3 U+5B57 U+6BB5: "key fields"\<close>
  "zh_key_fields = [0x6838, 0x5FC3, 0x5B57, 0x6BB5]"

definition zh_field_name_colon :: jsstring where
  \<comment> \<open>U+5B57 U+6BB5 U+540D U+FF1A: "field name" and a full-width colon\<close>
  "zh_field_name_colon = [0x5B57, 0x6BB5, 0x540D, 0xFF1A]"

definition zh_colon :: jsstring where
  \<comment> \<open>U+FF1A: full-width colon\<close>
  "zh_colon = [0xFF1A]"

definition zh_entity_colon :: jsstring where
  \<comment> \<open>U+5BF9 U+5E94 U+5B9E U+4F53 U+FF1A: "corresponding entity" and a full-width colon\<close>
  "zh_entity_colon = [0x5BF9, 0x5E94, 0x5B9E, 0x4F53, 0xFF1A]"

definition zh_fields :: jsstring where
  \<comment> \<open>U+5B57 U+6BB5: "fields"\<close>
  "zh_fields = [0x5B57, 0x6BB5]"

definition zh_glossary :: jsstring where
  \<comment> \<open>U+672F U+8BED U+8868: "glossary"\<close>
  "zh_glossary = [0x672F, 0x8BED, 0x8868]"

definition zh_changelog :: jsstring where
  \<comment> \<open>U+53D8 U+66F4 U+5386 U+53F2: "change history"\<close>
  "zh_changelog = [0x53D8, 0x66F4, 0x5386, 0x53F2]"

text \<open>
  \<^verbatim>\<open>String.prototype.trim\<close> strips white space and line terminators from both ends: TAB,
  LF, VT, FF, CR, SP, NBSP, U+1680, U+2000 to U+200A, U+2028, U+2029, U+202F, U+205F,
  U+3000 and U+FEFF.
\<close>

definition isTrimSpace :: "jschar \<Rightarrow> bool" where
  "isTrimSpace c \<longleftrightarrow>
     (0x09 \<le> c \<and> c \<le> 0x0D) \<or> c = 0x20 \<or> c = 0xA0 \<or> c = 0x1680 \<or>
     (0x2000 \<le> c \<and> c \<le> 0x200A) \<or> c = 0x2028 \<or> c = 0x2029 \<or> c = 0x202F \<or>
     c = 0x205F \<or> c = 0x3000 \<or> c = 0xFEFF"

definition trim :: "jsstring \<Rightarrow> jsstring" where
  "trim s = rev (dropWhile isTrimSpace (rev (dropWhile isTrimSpace s)))"

text \<open>\<^verbatim>\<open>String(x)\<close> for an optional string: the text \<^verbatim>\<open>undefined\<close> when it is absent.\<close>

fun String_of :: "jsstring option \<Rightarrow> jsstring" where
  "String_of None = str ''undefined''"
| "String_of (Some s) = s"

text \<open>
  \<^verbatim>\<open>mdEscape\<close>: CR removed, \<^verbatim>\<open>& < >\<close> to HTML entities, newline to a space, square
  brackets to U+3010 and U+3011, then \<^verbatim>\<open>trim\<close>.
\<close>

definition mdEscape :: "jsstring \<Rightarrow> jsstring" where
  "mdEscape text =
     trim
       (replaceAll 0x5D [0x3011]
         (replaceAll 0x5B [0x3010]
           (replaceAll 0x0A (str '' '')
             (replaceAll 0x3E (str ''&gt;'')
               (replaceAll 0x3C (str ''&lt;'')
                 (replaceAll 0x26 (str ''&amp;'')
                   (replaceAll 0x0D [] text)))))))"

text \<open>
  \<^verbatim>\<open>mdCode\<close>: an inline code span, with doubled backticks and the backticks of the text
  preceded by a backslash when the text has a backtick (0x60).
\<close>

definition mdCode :: "jsstring \<Rightarrow> jsstring" where
  "mdCode t =
     (if 0x60 \<in> set t then str ''``'' @ replaceAll 0x60 [0x5C, 0x60] t @ str ''``''
      else str ''`'' @ t @ str ''`'')"

text \<open>
  \<^verbatim>\<open>formatCodeRef\<close> of mindmapMarkdown.ts: \<^verbatim>\<open>null\<close> (here \<open>None\<close>) for an absent reference
  or an empty file, otherwise as in diagrams.ts.
\<close>

definition formatCodeRefMd :: "CodeRef option \<Rightarrow> jsstring option" where
  "formatCodeRefMd ref =
     (case ref of None \<Rightarrow> None
      | Some r \<Rightarrow>
          if cr_file r = [] then None
          else (let parts = [cr_file r];
                    parts = (if truthy (cr_function r) then parts @ [the (cr_function r)]
                             else parts);
                    parts = (case cr_line r of Some n \<Rightarrow> parts @ [showInt n] | None \<Rightarrow> parts)
                in Some (join (str '':'') parts)))"

text \<open>
  \<^verbatim>\<open>push(lines, level, text)\<close> appends a bullet line indented by two spaces per level,
  \<^verbatim>\<open>pushTitle(lines, level, text)\<close> a heading of 1 to 6 hash signs.
\<close>

definition push :: "jsstring list \<Rightarrow> int \<Rightarrow> jsstring \<Rightarrow> jsstring list" where
  "push lines level text =
     (let indent = repeat (str ''  '') (nat (max 0 level))
      in lines @ [indent @ str ''- '' @ text])"

definition pushTitle :: "jsstring list \<Rightarrow> int \<Rightarrow> jsstring \<Rightarrow> jsstring list" where
  "pushTitle lines level text =
     (let prefix = repeat (str ''#'') (nat (min 6 (max 1 level)))
      in lines @ [prefix @ str '' '' @ text])"

text \<open>The line \<^verbatim>\<open>`<code location>${mdCode(code)}`\<close>, pushed when the reference formats to a
  truthy string.\<close>

definition pushCodeLocation :: "jsstring list \<Rightarrow> CodeRef option \<Rightarrow> jsstring list" where
  "pushCodeLocation lines code_ref =
     (let code = formatCodeRefMd code_ref
      in if truthy code then push lines 2 (zh_code_location_colon @ mdCode (the code)) else lines)"

subsection \<open>moduleToMarkdown\<close>

text \<open>The title of a module and its description, tags and dependencies.\<close>

definition moduleHeader :: "jsstring list \<Rightarrow> Module \<Rightarrow> jsstring list" where
  "moduleHeader lines m =
     (let lines = pushTitle lines 3 (mdEscape (mod_name m) @ zh_lparen @ mdEscape (mod_id m) @ zh_rparen);
          lines = (if mod_description m \<noteq> []
                   then push lines 0 (zh_description_colon @ mdEscape (mod_description m))
                   else lines);
          lines = (if mod_tags m \<noteq> None \<and> length (the (mod_tags m)) > 0
                   then push lines 0 (zh_tags_colon @ mdEscape (join zh_comma (the (mod_tags m))))
                   else lines)
      in if mod_dependencies m \<noteq> None \<and> length (the (mod_dependencies m)) > 0
         then push lines 0
                (zh_dependencies @ zh_colon @ mdEscape (join zh_comma (the (mod_dependencies m))))
         else lines)"

definition moduleCodeRefs :: "jsstring list \<Rightarrow> Module \<Rightarrow> jsstring list" where
  "moduleCodeRefs lines m =
     (if mod_code_refs m \<noteq> None \<and> length (the (mod_code_refs m)) > 0
      then foldl (\<lambda>lines r.
               (let c = formatCodeRefMd (Some r)
                in push lines 1 (if truthy c then mdCode (the c) else mdCode (cr_file r))))
             (push lines 0
                (zh_code_entries @ zh_lparen @ showNat (length (the (mod_code_refs m))) @ zh_rparen))
             (the (mod_code_refs m))
      else lines)"

text \<open>The line of one step of a flow, the steps being taken in the order of
  \<^verbatim>\<open>f.steps.slice().sort((a, b) => a.order - b.order)\<close>.\<close>

definition flowStepToMarkdown :: "jsstring list \<Rightarrow> FlowStep \<Rightarrow> jsstring list" where
  "flowStepToMarkdown lines s =
     (let parts = [showInt (fs_order s) @ str ''. '' @ mdEscape (fs_name s)];
          parts = (if truthy (fs_description s) then parts @ [mdEscape (the (fs_description s))]
                   else parts);
          parts = (if fs_rules s \<noteq> None \<and> length (the (fs_rules s)) > 0
                   then parts @ [zh_rules_colon @ mdEscape (join zh_comma (the (fs_rules s)))]
                   else parts)
      in push lines 3 (mdEscape (join (str '' / '') parts)))"

definition flowToMarkdown :: "jsstring list \<Rightarrow> Flow \<Rightarrow> jsstring list" where
  "flowToMarkdown lines f =
     (let lines = push lines 1 (mdEscape (fl_name f));
          lines = (if truthy (fl_trigger f)
                   then push lines 2 (zh_trigger_colon @ mdEscape (the (fl_trigger f))) else lines);
          lines = (if truthy (fl_description f)
                   then push lines 2 (zh_description_colon @ mdEscape (the (fl_description f)))
                   else lines);
          lines = pushCodeLocation lines (fl_code_ref f)
      in if length (fl_steps f) > 0
         then foldl flowStepToMarkdown
                (push lines 2 (zh_steps @ zh_lparen @ showNat (length (fl_steps f)) @ zh_rparen))
                (sort_key fs_order (fl_steps f))
         else lines)"

definition moduleFlows :: "jsstring list \<Rightarrow> Module \<Rightarrow> jsstring list" where
  "moduleFlows lines m =
     (if length (mod_flows m) > 0
      then foldl flowToMarkdown
             (push lines 0 (zh_flows @ zh_lparen @ showNat (length (mod_flows m)) @ zh_rparen))
             (mod_flows m)
      else lines)"

definition ruleToMarkdown :: "jsstring list \<Rightarrow> Rule \<Rightarrow> jsstring list" where
  "ruleToMarkdown lines r =
     (let lines = push lines 1 (mdEscape (ru_name r));
          lines = push lines 2
                    (zh_priority_colon @
                     (if ru_priority r = High then zh_high
                      else if ru_priority r = Medium then zh_medium else zh_low));
          lines = (if truthy (ru_category r)
                   then push lines 2 (zh_category_colon @ mdEscape (the (ru_category r)))
                   else lines);
          lines = (if ru_description r \<noteq> []
                   then push lines 2 (zh_description_colon @ mdEscape (ru_description r))
                   else lines)
      in pushCodeLocation lines (ru_code_ref r))"

definition moduleRules :: "jsstring list \<Rightarrow> Module \<Rightarrow> jsstring list" where
  "moduleRules lines m =
     (if length (mod_rules m) > 0
      then foldl ruleToMarkdown
             (push lines 0 (zh_rules @ zh_lparen @ showNat (length (mod_rules m)) @ zh_rparen))
             (mod_rules m)
      else lines)"

definition stateToMarkdown :: "jsstring list \<Rightarrow> StateDefinition \<Rightarrow> jsstring list" where
  "stateToMarkdown lines s =
     (let tags = (if sd_is_initial s = Some True then [zh_initial] else []) @
                 (if sd_is_final s = Some True then [zh_final] else [])
      in push lines 3
           (if length tags > 0
            then mdEscape (sd_name s) @ zh_lparen @ join zh_comma tags @ zh_rparen
            else mdEscape (sd_name s)))"

definition transitionToMarkdown :: "jsstring list \<Rightarrow> StateTransition \<Rightarrow> jsstring list" where
  "transitionToMarkdown lines t =
     (let label = mdEscape (st_from t) @ str '' -> '' @ mdEscape (st_to t) @ str '' / '' @
                  zh_trigger_colon @ mdEscape (st_trigger t)
      in push lines 3
           (if truthy (st_description t)
            then label @ str '' / '' @ mdEscape (the (st_description t)) else label))"

definition stateMachineToMarkdown :: "jsstring list \<Rightarrow> StateMachine \<Rightarrow> jsstring list" where
  "stateMachineToMarkdown lines sm =
     (let lines = push lines 1
                    (mdEscape (sm_name sm) @ zh_lparen @ mdEscape (sm_entity sm) @ str ''.'' @
                     mdEscape (sm_field sm) @ zh_rparen);
          lines = (if truthy (sm_description sm)
                   then push lines 2 (zh_description_colon @ mdEscape (the (sm_description sm)))
                   else lines);
          lines = push lines 2 (zh_states @ zh_lparen @ showNat (length (sm_states sm)) @ zh_rparen);
          lines = foldl stateToMarkdown lines (sm_states sm)
      in if length (sm_transitions sm) > 0
         then foldl transitionToMarkdown
                (push lines 2
                   (zh_transitions @ zh_lparen @ showNat (length (sm_transitions sm)) @ zh_rparen))
                (sm_transitions sm)
         else lines)"

definition moduleStateMachines :: "jsstring list \<Rightarrow> Module \<Rightarrow> jsstring list" where
  "moduleStateMachines lines m =
     (if length (mod_state_machines m) > 0
      then foldl stateMachineToMarkdown
             (push lines 0
                (zh_state_machines @ zh_lparen @ showNat (length (mod_state_machines m)) @ zh_rparen))
             (mod_state_machines m)
      else lines)"

definition pseudocodeStepToMarkdown :: "jsstring list \<Rightarrow> PseudocodeStep \<Rightarrow> jsstring list" where
  "pseudocodeStepToMarkdown lines step =
     (let indent = min 6 (max 0 (ps_indent step))
      in push lines (3 + indent) (mdEscape (ps_text step)))"

definition pseudocodeToMarkdown :: "jsstring list \<Rightarrow> Pseudocode \<Rightarrow> jsstring list" where
  "pseudocodeToMarkdown lines pc =
     (let sig = pc_name pc @ str ''('' @
                (case pc_params pc of Some ps \<Rightarrow> join (str '', '') ps | None \<Rightarrow> []) @ str '')'';
          lines = push lines 1 (mdCode sig);
          lines = (if truthy (pc_description pc)
                   then push lines 2 (zh_description_colon @ mdEscape (the (pc_description pc)))
                   else lines);
          lines = (if truthy (pc_returns pc)
                   then push lines 2 (zh_returns_colon @ mdEscape (the (pc_returns pc)))
                   else lines);
          lines = pushCodeLocation lines (pc_code_ref pc)
      in if length (pc_steps pc) > 0
         then foldl pseudocodeStepToMarkdown
                (push lines 2 (zh_steps @ zh_lparen @ showNat (length (pc_steps pc)) @ zh_rparen))
                (pc_steps pc)
         else lines)"

definition modulePseudocodes :: "jsstring list \<Rightarrow> Module \<Rightarrow> jsstring list" where
  "modulePseudocodes lines m =
     (if length (mod_pseudocodes m) > 0
      then foldl pseudocodeToMarkdown
             (push lines 0
                (zh_pseudocodes @ zh_lparen @ showNat (length (mod_pseudocodes m)) @ zh_rparen))
             (mod_pseudocodes m)
      else lines)"

text \<open>\<^verbatim>\<open>moduleToMarkdown(lines, m)\<close>: the blocks above, in the order of the source.\<close>

definition moduleToMarkdown :: "jsstring list \<Rightarrow> Module \<Rightarrow> jsstring list" where
  "moduleToMarkdown lines m =
     (let lines = moduleHeader lines m;
          lines = moduleCodeRefs lines m;
          lines = moduleFlows lines m;
          lines = moduleRules lines m;
          lines = moduleStateMachines lines m
      in modulePseudocodes lines m)"

subsection \<open>generateMindmapMarkdown\<close>

text \<open>
  Reading a property of \<^verbatim>\<open>undefined\<close> throws a \<^verbatim>\<open>TypeError\<close>; a function that can throw
  returns a sum, \<open>Inl\<close> the error.
\<close>

datatype js_error = TypeError

definition keyFieldToMarkdown :: "jsstring list \<Rightarrow> KeyField \<Rightarrow> jsstring list" where
  "keyFieldToMarkdown lines f =
     (let meta = join (str '' / '')
                   ([zh_field_name_colon @ kf_name f] @
                    (if truthy (kf_source f) then [zh_source_colon @ the (kf_source f)] else []))
      in push lines 1
           (mdEscape (kf_label f) @ zh_colon @ mdEscape (kf_description f) @ zh_lparen @
            mdEscape meta @ zh_rparen))"

definition entityStatusToMarkdown :: "jsstring list \<Rightarrow> EntityStatus \<Rightarrow> jsstring list" where
  "entityStatusToMarkdown lines s =
     push lines 1
       (mdEscape (es_label s) @ zh_lparen @ mdEscape (es_value s) @ zh_rparen @
        (if truthy (es_description s) then zh_colon @ mdEscape (the (es_description s)) else []))"

text \<open>The body of the loop over \<^verbatim>\<open>manifest.entities\<close>.\<close>

definition entityToMarkdown :: "jsstring list \<Rightarrow> Entity \<Rightarrow> jsstring list" where
  "entityToMarkdown lines e =
     (let lines = pushTitle lines 3 (mdEscape (en_name e) @ zh_lparen @ mdEscape (en_id e) @ zh_rparen);
          lines = push lines 0 (zh_description_colon @ mdEscape (String_of (en_description e)));
          lines = (if en_models e \<noteq> None \<and> length (the (en_models e)) > 0
                   then push lines 0
                          (zh_related_models_colon @ mdEscape (join zh_comma (the (en_models e))))
                   else lines);
          lines = (if en_key_fields e \<noteq> None \<and> length (the (en_key_fields e)) > 0
                   then foldl keyFieldToMarkdown
                          (push lines 0
                             (zh_key_fields @ zh_lparen @
                              showNat (length (the (en_key_fields e))) @ zh_rparen))
                          (the (en_key_fields e))
                   else lines)
      in if en_statuses e \<noteq> None \<and> length (the (en_statuses e)) > 0
         then foldl entityStatusToMarkdown
                (push lines 0
                   (zh_states @ zh_lparen @ showNat (length (the (en_statuses e))) @ zh_rparen))
                (the (en_statuses e))
         else lines)"

text \<open>The body of the loop over \<^verbatim>\<open>manifest.data_models\<close>.\<close>

definition dataModelToMarkdown :: "jsstring list \<Rightarrow> DataModel \<Rightarrow> jsstring list" where
  "dataModelToMarkdown lines m =
     (let lines = pushTitle lines 3 (mdEscape (dm_name m) @ zh_lparen @ mdEscape (dm_table m) @ zh_rparen);
          lines = push lines 0 (zh_description_colon @ mdEscape (dm_description m));
          lines = (if truthy (dm_entity m)
                   then push lines 0 (zh_entity_colon @ mdEscape (the (dm_entity m))) else lines);
          lines = (if dm_source m \<noteq> None \<and> ms_file (the (dm_source m)) \<noteq> []
                   then push lines 0 (zh_source_colon @ mdCode (ms_file (the (dm_source m))))
                   else lines)
      in if length (dm_fields m) > 0
         then foldl (\<lambda>lines f.
                  push lines 1
                    (mdCode (mf_name f @ str '': '' @ mf_type f) @ str '' - '' @ mdEscape (mf_label f)))
                (push lines 0 (zh_fields @ zh_lparen @ showNat (length (dm_fields m)) @ zh_rparen))
                (dm_fields m)
         else lines)"

text \<open>\<^verbatim>\<open>mdEscape(c.type)\<close>: the literal of the union.\<close>

fun changeTypeText :: "ChangeType \<Rightarrow> jsstring" where
  "changeTypeText Init = str ''init''"
| "changeTypeText Add = str ''add''"
| "changeTypeText Modify = str ''modify''"
| "changeTypeText Remove = str ''remove''"

text \<open>The project header, the modules heading and the modules.\<close>

definition markdownModules :: "LogicManifest \<Rightarrow> jsstring list" where
  "markdownModules manifest =
     (let lines = [];
          lines = pushTitle lines 1
                    (zh_project_colon @ mdEscape (pi_name (man_project manifest)) @ zh_lparen @
                     mdEscape (pi_id (man_project manifest)) @ zh_rparen @ str '' v'' @
                     mdEscape (pi_version (man_project manifest)));
          lines = push lines 0
                    (zh_project_description_colon @ mdEscape (pi_description (man_project manifest)));
          lines = push lines 0
                    (zh_updated_at_colon @ mdEscape (pi_updated_at (man_project manifest)));
          lines = pushTitle lines 2
                    (zh_modules @ zh_lparen @ showNat (length (man_modules manifest)) @ zh_rparen)
      in foldl moduleToMarkdown lines (man_modules manifest))"

text \<open>The data models, the glossary and the changelog.\<close>

definition markdownTail :: "jsstring list \<Rightarrow> LogicManifest \<Rightarrow> jsstring list" where
  "markdownTail lines manifest =
     (let lines = pushTitle lines 2
                    (zh_data_models @ zh_lparen @ showNat (length (man_data_models manifest)) @
                     zh_rparen);
          lines = foldl dataModelToMarkdown lines (man_data_models manifest);
          lines = pushTitle lines 2
                    (zh_glossary @ zh_lparen @ showNat (length (man_glossary manifest)) @ zh_rparen);
          lines = foldl (\<lambda>lines kv.
                    push lines 0
                      (mdEscape (fst kv) @ zh_lparen @ mdEscape (ge_term (snd kv)) @ zh_rparen @
                       zh_colon @ mdEscape (ge_description (snd kv))))
                    lines (man_glossary manifest);
          lines = pushTitle lines 2
                    (zh_changelog @ zh_lparen @ showNat (length (man_changelog manifest)) @ zh_rparen)
      in foldl (\<lambda>lines c.
             push lines 0
               (mdEscape (cl_date c) @ str '' / '' @ mdEscape (changeTypeText (cl_type c)) @
                zh_colon @ mdEscape (cl_summary c)))
           lines (man_changelog manifest))"

text \<open>
  The lines of the outline. \<^verbatim>\<open>manifest.entities.length\<close> is read without a guard, so an
  absent \<^verbatim>\<open>entities\<close> throws after the modules have been walked.
\<close>

definition mindmapMarkdownLines :: "LogicManifest \<Rightarrow> js_error + jsstring list" where
  "mindmapMarkdownLines manifest =
     (let lines = markdownModules manifest
      in case man_entities manifest of
           None \<Rightarrow> Inl TypeError
         | Some entities \<Rightarrow>
             (let lines = pushTitle lines 2
                            (zh_entities @ zh_lparen @ showNat (length entities) @ zh_rparen);
                  lines = foldl entityToMarkdown lines entities
              in Inr (markdownTail lines manifest)))"

definition generateMindmapMarkdown :: "LogicManifest \<Rightarrow> js_error + jsstring" where
  "generateMindmapMarkdown manifest =
     (case mindmapMarkdownLines manifest of
        Inl e \<Rightarrow> Inl e
      | Inr lines \<Rightarrow> Inr (join nl lines @ nl))"

section \<open>The shapes of the outline's lines\<close>

text \<open>
  The line shapes that the outline emitter can push, as an invariant of its blocks:
  a heading (it starts with \<^verbatim>\<open>#\<close>); a line that holds the full-width colon U+FF1A of a
  label such as the description label; a bullet of level 0 that announces a collection with a
  positive count; a bullet of level 1; a bullet of level 2 that announces steps or
  transitions with a positive count, or the states of a state machine with any count; and
  a line of level 3 or deeper. The predicate is no part of the program: it is what the
  proof about the announced counts maintains along the blocks.
\<close>

inductive outlineLine :: "jsstring \<Rightarrow> bool" where
  title: "outlineLine (str ''#'' @ t)"
| labelled: "0xFF1A \<in> set l \<Longrightarrow> outlineLine l"
| count0:
    "0 < n \<Longrightarrow>
     L \<in> {zh_code_entries, zh_flows, zh_rules, zh_state_machines, zh_pseudocodes, zh_key_fields,
           zh_states, zh_fields} \<Longrightarrow>
     outlineLine (str ''- '' @ L @ zh_lparen @ showNat n @ zh_rparen)"
| level1: "outlineLine (str ''  - '' @ t)"
| count2:
    "0 < n \<Longrightarrow> L \<in> {zh_steps, zh_transitions} \<Longrightarrow>
     outlineLine (str ''    - '' @ L @ zh_lparen @ showNat n @ zh_rparen)"
| states2: "outlineLine (str ''    - '' @ zh_states @ zh_lparen @ showNat n @ zh_rparen)"
| deeper: "outlineLine (str ''      '' @ t)"

definition outlineLines :: "jsstring list \<Rightarrow> bool" where
  "outlineLines ls \<longleftrightarrow> (\<forall>l\<in>set ls. outlineLine l)"

section \<open>Example inputs\<close>

text \<open>Small manifest fragments on which the emitters are evaluated below.\<close>

definition ex_step :: "int \<Rightarrow> jsstring \<Rightarrow> FlowStep" where
  "ex_step n name =
     \<lparr>fs_id = name, fs_order = n, fs_name = name, fs_description = None, fs_rules = None\<rparr>"

definition ex_flow :: "FlowStep list \<Rightarrow> Flow" where
  "ex_flow steps =
     \<lparr>fl_id = str ''f1'', fl_name = str ''checkout'', fl_description = None, fl_trigger = None,
      fl_steps = steps, fl_code_ref = None\<rparr>"

definition ex_state :: "jsstring \<Rightarrow> StateDefinition" where
  "ex_state i =
     \<lparr>sd_id = i, sd_name = i, sd_description = None, sd_is_initial = None, sd_is_final = None\<rparr>"

definition ex_transition :: "jsstring \<Rightarrow> jsstring \<Rightarrow> StateTransition" where
  "ex_transition a b =
     \<lparr>st_from = a, st_to = b, st_trigger = str ''go'', st_description = None, st_rules = None\<rparr>"

definition ex_machine :: "StateDefinition list \<Rightarrow> StateTransition list \<Rightarrow> StateMachine" where
  "ex_machine states transitions =
     \<lparr>sm_id = str ''sm'', sm_name = str ''order'', sm_description = None, sm_entity = str ''Order'',
      sm_field = str ''status'', sm_states = states, sm_transitions = transitions\<rparr>"

definition ex_module :: "jsstring \<Rightarrow> jsstring list option \<Rightarrow> Module" where
  "ex_module i deps =
     \<lparr>mod_id = i, mod_name = i, mod_description = [], mod_tags = None, mod_dependencies = deps,
      mod_code_refs = None, mod_flows = [], mod_rules = [], mod_state_machines = [],
      mod_pseudocodes = []\<rparr>"

definition ex_manifest :: "Module list \<Rightarrow> Entity list option \<Rightarrow> LogicManifest" where
  "ex_manifest modules entities =
     \<lparr>man_schema = [],
      man_project = \<lparr>pi_id = str ''p'', pi_name = str ''P'', pi_description = str ''d'',
                      pi_version = str ''1'', pi_updated_at = str ''t''\<rparr>,
      man_modules = modules, man_data_models = [], man_entities = entities, man_glossary = [],
      man_changelog = []\<rparr>"

definition ex_full_module :: Module where
  "ex_full_module =
     \<lparr>mod_id = str ''order'', mod_name = str ''Order'', mod_description = str ''orders'',
      mod_tags = Some [str ''core''], mod_dependencies = Some [str ''pay''],
      mod_code_refs = Some [\<lparr>cr_file = str ''a.ts'', cr_function = None, cr_line = Some 7\<rparr>],
      mod_flows = [ex_flow [ex_step 2 (str ''pay''), ex_step 1 (str ''create'')]],
      mod_rules = [\<lparr>ru_id = str ''r1'', ru_name = str ''paid'', ru_description = [],
                     ru_priority = High, ru_category = None, ru_constraints = None,
                     ru_effects = None, ru_affects = None, ru_code_ref = None\<rparr>],
      mod_state_machines = [ex_machine [] []],
      mod_pseudocodes = [\<lparr>pc_id = str ''p1'', pc_name = str ''pay'', pc_description = None,
                           pc_params = Some [str ''id''], pc_returns = None, pc_steps = [],
                           pc_calls = [], pc_code_ref = None\<rparr>]\<rparr>"

text \<open>
  The nine lines of the outline of the manifest \<open>ex_manifest [ex_module a None] (Some [])\<close>,
  whose one module \<^verbatim>\<open>a\<close> has no description, tags, dependencies or sub-collections.
\<close>

definition ex_outline :: "jsstring list" where
  "ex_outline =
     [str ''# '' @ zh_project_colon @ str ''P'' @ zh_lparen @ str ''p'' @ zh_rparen @ str '' v1'',
      str ''- '' @ zh_project_description_colon @ str ''d'',
      str ''- '' @ zh_updated_at_colon @ str ''t'',
      str ''## '' @ zh_modules @ zh_lparen @ str ''1'' @ zh_rparen,
      str ''### a'' @ zh_lparen @ str ''a'' @ zh_rparen,
      str ''## '' @ zh_entities @ zh_lparen @ str ''0'' @ zh_rparen,
      str ''## '' @ zh_data_models @ zh_lparen @ str ''0'' @ zh_rparen,
      str ''## '' @ zh_glossary @ zh_lparen @ str ''0'' @ zh_rparen,
      str ''## '' @ zh_changelog @ zh_lparen @ str ''0'' @ zh_rparen]"

text \<open>
  A manifest with an entity that has one key field and no statuses, a data model with one
  field, the module \<^verbatim>\<open>order\<close> with one entry in each of its five sub-collections (a flow of
  two steps, a state machine without states or transitions, a pseudocode without steps)
  and the empty module \<^verbatim>\<open>a\<close>.
\<close>

definition ex_entity :: Entity where
  "ex_entity =
     \<lparr>en_id = str ''e1'', en_name = str ''Order'', en_description = None, en_models = None,
      en_key_fields = Some [\<lparr>kf_name = str ''id'', kf_label = str ''key'',
                              kf_description = str ''the key'', kf_source = None\<rparr>],
      en_statuses = None\<rparr>"

definition ex_data_model :: DataModel where
  "ex_data_model =
     \<lparr>dm_id = str ''m1'', dm_name = str ''Order'', dm_table = str ''orders'',
      dm_description = str ''order rows'', dm_entity = None,
      dm_fields = [\<lparr>mf_name = str ''id'', mf_type = str ''int'', mf_label = str ''key'',
                     mf_description = None, mf_required = None, mf_unique = None,
                     mf_enum_options = None, mf_references = None\<rparr>],
      dm_source = None\<rparr>"

definition ex_rich_manifest :: LogicManifest where
  "ex_rich_manifest =
     \<lparr>man_schema = [],
      man_project = \<lparr>pi_id = str ''p'', pi_name = str ''P'', pi_description = str ''d'',
                      pi_version = str ''1'', pi_updated_at = str ''t''\<rparr>,
      man_modules = [ex_full_module, ex_module (str ''a'') None],
      man_data_models = [ex_data_model],
      man_entities = Some [ex_entity],
      man_glossary = [],
      man_changelog = []\<rparr>"

section \<open>Evaluation on concrete inputs\<close>

lemma showNat_small: "n < 10 \<Longrightarrow> showNat n = [of_nat (48 + n)]"
  by (simp add: showNat.simps [of n])

lemma showNat_large: "\<not> n < 10 \<Longrightarrow> showNat n = showNat (n div 10) @ [of_nat (48 + n mod 10)]"
  by (simp add: showNat.simps [of n])

lemma repeat_0: "repeat s 0 = []"
  by (simp add: repeat_def)

lemma repeat_Suc: "repeat s (Suc n) = s @ repeat s n"
  by (simp add: repeat_def)

lemma repeat_numeral: "repeat s (numeral k) = s @ repeat s (pred_numeral k)"
  by (simp add: repeat_def numeral_eq_Suc)

section \<open>Loops that push lines\<close>

lemma foldl_push: "foldl (\<lambda>lines x. lines @ [f x]) ls xs = ls @ map f xs"
  by (induction xs arbitrary: ls) simp_all


section \<open>Properties of the sanitizers\<close>

lemma in_set_replaceAll:
  "c \<in> set (replaceAll p r s) \<longleftrightarrow> (c \<in> set s \<and> c \<noteq> p) \<or> (p \<in> set s \<and> c \<in> set r)"
  by (induction s) (auto simp: replaceAll_def)

lemma replaceAll_Nil: "replaceAll p r [] = []"
  by (simp add: replaceAll_def)

lemma replaceAll_Cons: "replaceAll p r (c # s) = (if c = p then r else [c]) @ replaceAll p r s"
  by (simp add: replaceAll_def)

lemma replaceAll_append: "replaceAll p r (a @ b) = replaceAll p r a @ replaceAll p r b"
  by (simp add: replaceAll_def)

text \<open>
  C7. \<open>escapeLabel\<close> acts on each code unit by itself: a backslash (0x5C) is doubled, a
  double quote (0x22) becomes the single quote (0x27), a newline (0x0A) becomes the token
  \<^verbatim>\<open><br/>\<close>, and every other code unit is kept. \<open>escapeMindmapText\<close> does the same and,
  besides, turns the ASCII brackets \<^verbatim>\<open>( ) [ ]\<close> (0x28, 0x29, 0x5B, 0x5D) into the full-width
  U+FF08, U+FF09, U+3010 and U+3011. So, for every input string, the output of
  \<open>escapeLabel\<close> contains no double quote and no newline, and the output of
  \<open>escapeMindmapText\<close> contains, besides, none of the four ASCII brackets.
\<close>

theorem escape_replaces_reserved:
  "escapeLabel t =
     concat (map (\<lambda>c. if c = 0x5C then [0x5C, 0x5C]
                      else if c = 0x22 then [0x27]
                      else if c = 0x0A then str ''<br/>''
                      else [c]) t) \<and>
   escapeMindmapText t =
     concat (map (\<lambda>c. if c = 0x5C then [0x5C, 0x5C]
                      else if c = 0x22 then [0x27]
                      else if c = 0x0A then str ''<br/>''
                      else if c = 0x28 then [0xFF08]
                      else if c = 0x29 then [0xFF09]
                      else if c = 0x5B then [0x3010]
                      else if c = 0x5D then [0x3011]
                      else [c]) t) \<and>
   0x22 \<notin> set (escapeLabel t) \<and> 0x0A \<notin> set (escapeLabel t) \<and>
   0x22 \<notin> set (escapeMindmapText t) \<and> 0x0A \<notin> set (escapeMindmapText t) \<and>
   0x28 \<notin> set (escapeMindmapText t) \<and> 0x29 \<notin> set (escapeMindmapText t) \<and>
   0x5B \<notin> set (escapeMindmapText t) \<and> 0x5D \<notin> set (escapeMindmapText t)"
proof -
  have a: "escapeLabel t =
     concat (map (\<lambda>c. if c = 0x5C then [0x5C, 0x5C]
                      else if c = 0x22 then [0x27]
                      else if c = 0x0A then str ''<br/>''
                      else [c]) t)"
    by (induction t)
      (simp_all add: escapeLabel_def replaceAll_Nil replaceAll_Cons replaceAll_append str_def)
  have b: "escapeMindmapText t =
     concat (map (\<lambda>c. if c = 0x5C then [0x5C, 0x5C]
                      else if c = 0x22 then [0x27]
                      else if c = 0x0A then str ''<br/>''
                      else if c = 0x28 then [0xFF08]
                      else if c = 0x29 then [0xFF09]
                      else if c = 0x5B then [0x3010]
                      else if c = 0x5D then [0x3011]
                      else [c]) t)"
    by (induction t)
      (simp_all add: escapeMindmapText_def escapeLabel_def replaceAll_Nil replaceAll_Cons
        replaceAll_append str_def)
  have c: "0x22 \<notin> set (escapeLabel t) \<and> 0x0A \<notin> set (escapeLabel t) \<and>
   0x22 \<notin> set (escapeMindmapText t) \<and> 0x0A \<notin> set (escapeMindmapText t) \<and>
   0x28 \<notin> set (escapeMindmapText t) \<and> 0x29 \<notin> set (escapeMindmapText t) \<and>
   0x5B \<notin> set (escapeMindmapText t) \<and> 0x5D \<notin> set (escapeMindmapText t)"
    by (simp add: escapeMindmapText_def escapeLabel_def in_set_replaceAll str_def)
  from a b c show ?thesis by (intro conjI) simp_all
qed

text \<open>
  C3, evaluated on the code. With the prefix \<^verbatim>\<open>mod_\<close> and the empty raw string the
  concatenation \<^verbatim>\<open>`${prefix}${normalized}`\<close> is the non-empty prefix, so \<^verbatim>\<open>||\<close> keeps it:
  the function returns the bare prefix, not the prefix followed by \<^verbatim>\<open>x\<close>.
\<close>

theorem safeNodeId_empty_raw_bare_prefix:
  "safeNodeId (str ''mod_'') [] = str ''mod_'' \<and>
   safeNodeId (str ''mod_'') [] \<noteq> str ''mod_'' @ str ''x''"
  by (simp add: safeNodeId_def str_def)

section \<open>The state diagram\<close>

lemma digit_char: "n < 10 \<Longrightarrow> isDigit (of_nat (48 + n))"
proof -
  assume n: "n < 10"
  have "unat (of_nat (48 + n) :: 16 word) = (48 + n) mod 2 ^ LENGTH(16)"
    by (rule unat_of_nat)
  also have "\<dots> = 48 + n" using n by simp
  finally have "unat (of_nat (48 + n) :: 16 word) = 48 + n" .
  with n show ?thesis
    unfolding isDigit_def word_le_nat_alt by simp
qed

lemma showNat_digits: "showNat n \<noteq> [] \<and> list_all isDigit (showNat n)"
proof (induction n rule: showNat.induct)
  case (1 n)
  show ?case
  proof (cases "n < 10")
    case True
    then show ?thesis using digit_char [of n] by (simp add: showNat.simps [of n])
  next
    case False
    then have "n mod 10 < 10" by simp
    with False 1 show ?thesis using digit_char [of "n mod 10"] by (simp add: showNat.simps [of n])
  qed
qed


lemma safeNodeId_shape:
  "prefix \<noteq> [] \<Longrightarrow>
   \<exists>n. safeNodeId prefix x = prefix @ n \<and> (n = [] \<or> \<not> isDigit (hd n)) \<and> list_all isWordChar n"
proof (cases x)
  case Nil
  assume "prefix \<noteq> []"
  with Nil show ?thesis by (simp add: safeNodeId_def)
next
  case (Cons c cs)
  assume "prefix \<noteq> []"
  with Cons show ?thesis
    by (auto simp: safeNodeId_def Let_def str_def isDigit_def isWordChar_def list_all_iff)
qed

lemma aliasById_Some_aux:
  "n \<le> length xs \<Longrightarrow>
   foldl (\<lambda>mp i. mp(sd_id (xs ! i) \<mapsto> str ''S'' @ showNat (i + 1))) Map.empty [0..<n] d = Some a \<Longrightarrow>
   \<exists>i<n. a = str ''S'' @ showNat (i + 1) \<and> sd_id (xs ! i) = d"
proof (induction n arbitrary: a)
  case 0
  then show ?case by simp
next
  case (Suc n)
  then show ?case
    by (auto simp: less_Suc_eq split: if_splits)
qed

lemma aliasById_None_aux:
  "n \<le> length xs \<Longrightarrow>
   (foldl (\<lambda>mp i. mp(sd_id (xs ! i) \<mapsto> str ''S'' @ showNat (i + 1))) Map.empty [0..<n] d = None)
     = (\<forall>i<n. sd_id (xs ! i) \<noteq> d)"
proof (induction n)
  case 0
  then show ?case by simp
next
  case (Suc n)
  then show ?case
    by (auto simp: less_Suc_eq)
qed

lemma aliasById_None: "aliasById sm d = None \<longleftrightarrow> d \<notin> sd_id ` set (sm_states sm)"
proof -
  have "aliasById sm d = None \<longleftrightarrow> (\<forall>i<length (sm_states sm). sd_id (sm_states sm ! i) \<noteq> d)"
    unfolding aliasById_def by (rule aliasById_None_aux) simp
  also have "\<dots> \<longleftrightarrow> (\<forall>s\<in>set (sm_states sm). sd_id s \<noteq> d)"
    by (simp add: all_set_conv_all_nth)
  finally show ?thesis by auto
qed

lemma aliasById_Some:
  "aliasById sm d = Some a \<Longrightarrow> \<exists>i<length (sm_states sm). a = str ''S'' @ showNat (i + 1) \<and> sd_id (sm_states sm ! i) = d"
  using aliasById_Some_aux [of "length (sm_states sm)" "sm_states sm" d a]
  by (simp add: aliasById_def)

lemma minted_not_declared: "safeNodeId (str ''S'') x \<noteq> str ''S'' @ showNat n"
proof -
  obtain k where k: "safeNodeId (str ''S'') x = str ''S'' @ k" "k = [] \<or> \<not> isDigit (hd k)"
    using safeNodeId_shape [of "str ''S''" x] by (auto simp: str_def)
  have "showNat n \<noteq> []" "isDigit (hd (showNat n))"
    using showNat_digits [of n] by (cases "showNat n"; simp)+
  with k show ?thesis by auto
qed




text \<open>
  C10. An alias minted on demand for a dangling reference \<open>x\<close> (an id that no declared
  state has) is \<open>safeNodeId\<close> with the prefix \<^verbatim>\<open>S\<close> applied to \<open>x\<close>; the alias of a declared
  state is \<^verbatim>\<open>S\<close> followed by the decimal index of some state; the two are never equal, and
  the minted alias equals no \<^verbatim>\<open>S\<close> followed by a decimal number at all.
\<close>

theorem dangling_alias_never_declared:
  assumes "x \<notin> sd_id ` set (sm_states sm)" and "s \<in> set (sm_states sm)"
  shows "aliasOf (aliasById sm) x = safeNodeId (str ''S'') x \<and>
         (\<exists>i<length (sm_states sm). aliasOf (aliasById sm) (sd_id s) = str ''S'' @ showNat (i + 1)) \<and>
         aliasOf (aliasById sm) x \<noteq> aliasOf (aliasById sm) (sd_id s) \<and>
         (\<forall>n. aliasOf (aliasById sm) x \<noteq> str ''S'' @ showNat n)"
proof -
  have x: "aliasOf (aliasById sm) x = safeNodeId (str ''S'') x"
    using assms(1) by (simp add: aliasById_None [symmetric] aliasOf_def)
  have "aliasById sm (sd_id s) \<noteq> None"
    using assms(2) by (simp add: aliasById_None)
  then obtain a where a: "aliasById sm (sd_id s) = Some a" by auto
  then obtain i where i: "i < length (sm_states sm)" "a = str ''S'' @ showNat (i + 1)"
    using aliasById_Some by blast
  from a have s: "aliasOf (aliasById sm) (sd_id s) = a" by (simp add: aliasOf_def)
  show ?thesis
    using x s i minted_not_declared [of x] by auto
qed

lemmas state_eval = aliasOf_def aliasById_def safeNodeId_def isWordChar_def isDigit_def
  showNat_small ex_machine_def ex_state_def ex_transition_def Let_def

text \<open>
  The machine with the one state \<^verbatim>\<open>a\<close> (alias \<^verbatim>\<open>S1\<close>) and the dangling id \<^verbatim>\<open>1\<close>, which is
  minted as \<^verbatim>\<open>S_1\<close>.
\<close>

theorem dangling_alias_never_declared_witness:
  "str ''1'' \<notin> sd_id ` set (sm_states (ex_machine [ex_state (str ''a'')] [])) \<and>
   ex_state (str ''a'') \<in> set (sm_states (ex_machine [ex_state (str ''a'')] [])) \<and>
   aliasOf (aliasById (ex_machine [ex_state (str ''a'')] [])) (str ''1'') = str ''S_1'' \<and>
   aliasOf (aliasById (ex_machine [ex_state (str ''a'')] [])) (str ''a'') = str ''S1'' \<and>
   aliasOf (aliasById (ex_machine [ex_state (str ''a'')] [])) (str ''1'') \<noteq>
     aliasOf (aliasById (ex_machine [ex_state (str ''a'')] [])) (sd_id (ex_state (str ''a'')))"
proof -
  let ?sm = "ex_machine [ex_state (str ''a'')] []"
  have h1: "str ''1'' \<notin> sd_id ` set (sm_states ?sm)"
    by (simp add: ex_machine_def ex_state_def str_def)
  have h2: "ex_state (str ''a'') \<in> set (sm_states ?sm)"
    by (simp add: ex_machine_def)
  have "aliasOf (aliasById ?sm) (str ''1'') \<noteq> aliasOf (aliasById ?sm) (sd_id (ex_state (str ''a'')))"
    using dangling_alias_never_declared [OF h1 h2] by blast
  moreover have "aliasOf (aliasById ?sm) (str ''1'') = str ''S_1''"
    "aliasOf (aliasById ?sm) (str ''a'') = str ''S1''"
    by (simp_all add: state_eval str_def)
  ultimately show ?thesis using h1 h2 by blast
qed



section \<open>The flowchart\<close>

lemma flowStepNode_step:
  \<open>flowStepNode rb (ls, ids) (i, s) =
     (ls @ [str ''  '' @ (str ''S'' @ showNat (i + 1)) @ str ''["'' @
            escapeLabel (flowStepLabel rb s) @ str ''"]''],
      ids @ [str ''S'' @ showNat (i + 1)])\<close>
  by (simp add: flowStepNode_def)

lemma foldl_flowStepNode:
  \<open>foldl (flowStepNode rb) (ls, ids) (enumerate k xs) =
     (ls @ map (\<lambda>i. str ''  '' @ (str ''S'' @ showNat (k + i + 1)) @ str ''["'' @
                      escapeLabel (flowStepLabel rb (xs ! i)) @ str ''"]'') [0..<length xs],
      ids @ map (\<lambda>i. str ''S'' @ showNat (k + i + 1)) [0..<length xs])\<close>
proof (induction xs arbitrary: ls ids k)
  case Nil
  then show ?case by simp
next
  case (Cons x xs)
  have "[0..<length (x # xs)] = 0 # map Suc [0..<length xs]"
    by (simp add: upt_conv_Cons map_Suc_upt del: upt_Suc)
  then show ?case
    by (simp add: Cons.IH flowStepNode_step comp_def del: upt_Suc)
qed

lemma chain_edges:
  assumes "m < n"
  shows "foldl (\<lambda>lines i. lines @ [a @ map g [0..<n] ! i @ b @ map g [0..<n] ! Suc i]) ls [0..<m] =
         ls @ map (\<lambda>i. a @ g i @ b @ g (Suc i)) [0..<m]"
proof -
  have "map (\<lambda>i. a @ map g [0..<n] ! i @ b @ map g [0..<n] ! Suc i) [0..<m] =
        map (\<lambda>i. a @ g i @ b @ g (Suc i)) [0..<m]"
    using assms by (intro map_cong) auto
  then show ?thesis by (simp only: foldl_push)
qed

lemma flowchartLines_shape:
  \<open>flowchartLines flow rules =
     (let sorted = sort_key fs_order (fl_steps flow); n = length sorted
      in flowchartCode flow
          (flowchartHeader flow @
           map (\<lambda>i. str ''  '' @ (str ''S'' @ showNat (i + 1)) @ str ''["'' @
                     escapeLabel (flowStepLabel (rulesById rules) (sorted ! i)) @ str ''"]'') [0..<n] @
           (if n = 0 then [str ''  EMPTY["'' @ zh_no_steps @ str ''"]'', str ''  TR --> EMPTY'']
            else (str ''  TR --> '' @ (str ''S'' @ showNat 1)) #
                 map (\<lambda>i. str ''  '' @ (str ''S'' @ showNat (i + 1)) @ str '' --> '' @
                           (str ''S'' @ showNat (i + 1 + 1)))
                   [0..<n - 1])))\<close>
proof (cases "fl_steps flow = []")
  case True
  then show ?thesis by (simp add: flowchartLines_def Let_def)
next
  case False
  then have n: "0 < length (fl_steps flow)" by simp
  then have "map (\<lambda>i. str ''S'' @ showNat (i + 1)) [0..<length (fl_steps flow)] ! 0 = str ''S'' @ showNat 1"
    by (simp del: upt_Suc)
  moreover have "sort_key fs_order (fl_steps flow) \<noteq> []"
    using False by (metis length_sort length_0_conv)
  ultimately show ?thesis using n
    by (simp add: flowchartLines_def Let_def foldl_flowStepNode chain_edges del: upt_Suc)
qed

lemma sorted_head_least:
  assumes "xs \<noteq> []" "s \<in> set xs"
  shows "f (sort_key f xs ! 0) \<le> f s"
proof -
  have ne: "sort_key f xs \<noteq> []" using assms(1) by (metis length_sort length_0_conv)
  have "s \<in> set (sort_key f xs)" using assms(2) by simp
  then obtain i where i: "i < length (sort_key f xs)" "sort_key f xs ! i = s"
    unfolding in_set_conv_nth by blast
  have "sorted (map f (sort_key f xs))" by simp
  then have "map f (sort_key f xs) ! 0 \<le> map f (sort_key f xs) ! i"
    using i(1) by (intro sorted_nth_mono) auto
  with i assms(1) show ?thesis by simp
qed

text \<open>
  C2. The flowchart is the header, one node per step and the chain of edges, where the
  node \<^verbatim>\<open>S\<close>\<open>i+1\<close> carries the label of the \<open>i\<close>-th step of the steps sorted by \<^verbatim>\<open>order\<close>,
  the trigger node points to \<^verbatim>\<open>S1\<close> and \<^verbatim>\<open>S\<close>\<open>i+1\<close> points to \<^verbatim>\<open>S\<close>\<open>i+2\<close>. The sorted steps
  are ascending in \<^verbatim>\<open>order\<close>, a permutation of the flow's steps whatever their array
  order, steps of equal \<^verbatim>\<open>order\<close> keep their relative order, and the first of them, the
  target of the trigger's edge, has the smallest \<^verbatim>\<open>order\<close>.
\<close>

theorem flowchart_steps_ascending:
  \<open>let sorted = sort_key fs_order (fl_steps flow); n = length sorted
   in generateFlowchartForFlow flow rules =
        join nl
          (flowchartCode flow
            (flowchartHeader flow @
             map (\<lambda>i. str ''  '' @ (str ''S'' @ showNat (i + 1)) @ str ''["'' @
                       escapeLabel (flowStepLabel (rulesById rules) (sorted ! i)) @ str ''"]'') [0..<n] @
             (if n = 0 then [str ''  EMPTY["'' @ zh_no_steps @ str ''"]'', str ''  TR --> EMPTY'']
              else (str ''  TR --> '' @ (str ''S'' @ showNat 1)) #
                   map (\<lambda>i. str ''  '' @ (str ''S'' @ showNat (i + 1)) @ str '' --> '' @
                             (str ''S'' @ showNat (i + 1 + 1)))
                     [0..<n - 1]))) \<and>
      sorted_wrt (\<le>) (map fs_order sorted) \<and>
      mset sorted = mset (fl_steps flow) \<and>
      (\<forall>k. filter (\<lambda>s. fs_order s = k) sorted = filter (\<lambda>s. fs_order s = k) (fl_steps flow)) \<and>
      (\<forall>s\<in>set (fl_steps flow). fs_order (sorted ! 0) \<le> fs_order s)\<close>
proof -
  have "\<forall>s\<in>set (fl_steps flow). fs_order (sort_key fs_order (fl_steps flow) ! 0) \<le> fs_order s"
    using sorted_head_least [of "fl_steps flow" _ fs_order] by fastforce
  moreover have "\<forall>k. filter (\<lambda>s. fs_order s = k) (sort_key fs_order (fl_steps flow)) =
                     filter (\<lambda>s. fs_order s = k) (fl_steps flow)"
    by (simp add: sort_key_stable)
  moreover have "sorted_wrt (\<le>) (map fs_order (sort_key fs_order (fl_steps flow)))"
    using sorted_sort_key [of fs_order "fl_steps flow"] by simp
  moreover have "mset (sort_key fs_order (fl_steps flow)) = mset (fl_steps flow)"
    by simp
  ultimately show ?thesis
    unfolding generateFlowchartForFlow_def flowchartLines_shape [of flow rules] Let_def by blast
qed

lemmas flow_eval = flowchartHeader_def flowchartCode_def flowStepLabel_def
  formatCodeRef_def rulesById_def showNat_small showInt_def uniqueStrings_def newSet_def
  zh_trigger_colon_def zh_no_steps_def escapeLabel_def replaceAll_def nl_def ex_flow_def ex_step_def

text \<open>
  The flow whose steps have the orders 3, 1, 2 in array order: the nodes \<^verbatim>\<open>S1\<close>, \<^verbatim>\<open>S2\<close>,
  \<^verbatim>\<open>S3\<close> are the steps of order 1, 2, 3 and the trigger points to the step of order 1.
  With the orders 2, 1, 2 the two steps of order 2 keep their array order.
\<close>

theorem flowchart_steps_ascending_witness:
  \<open>generateFlowchartForFlow
      (ex_flow [ex_step 3 (str ''ship''), ex_step 1 (str ''create''), ex_step 2 (str ''pay'')]) [] =
    join nl [str ''flowchart TD'',
     str ''  T["checkout"]'',
     str ''  TR(["'' @ zh_trigger_colon @ str ''-"])'',
     str ''  T --> TR'',
     str ''  S1["1. create"]'',
     str ''  S2["2. pay"]'',
     str ''  S3["3. ship"]'',
     str ''  TR --> S1'',
     str ''  S1 --> S2'',
     str ''  S2 --> S3''] \<and>
   generateFlowchartForFlow
      (ex_flow [ex_step 2 (str ''first''), ex_step 1 (str ''create''), ex_step 2 (str ''second'')]) [] =
    join nl [str ''flowchart TD'',
     str ''  T["checkout"]'',
     str ''  TR(["'' @ zh_trigger_colon @ str ''-"])'',
     str ''  T --> TR'',
     str ''  S1["1. create"]'',
     str ''  S2["2. first"]'',
     str ''  S3["2. second"]'',
     str ''  TR --> S1'',
     str ''  S1 --> S2'',
     str ''  S2 --> S3'']\<close>
proof -
  have s: "sort_key fs_order [ex_step 3 (str ''ship''), ex_step 1 (str ''create''), ex_step 2 (str ''pay'')]
        = [ex_step 1 (str ''create''), ex_step 2 (str ''pay''), ex_step 3 (str ''ship'')]"
    "sort_key fs_order [ex_step 2 (str ''first''), ex_step 1 (str ''create''), ex_step 2 (str ''second'')]
        = [ex_step 1 (str ''create''), ex_step 2 (str ''first''), ex_step 2 (str ''second'')]"
    by (simp_all add: ex_step_def)
  have f: "fl_steps (ex_flow xs) = xs" for xs by (simp add: ex_flow_def)
  have u: "[0..<3] = [0, 1, 2]" "[0..<2] = [0, 1]" by (simp_all add: upt_rec)
  have a: \<open>generateFlowchartForFlow
      (ex_flow [ex_step 3 (str ''ship''), ex_step 1 (str ''create''), ex_step 2 (str ''pay'')]) [] =
    join nl [str ''flowchart TD'',
     str ''  T["checkout"]'',
     str ''  TR(["'' @ zh_trigger_colon @ str ''-"])'',
     str ''  T --> TR'',
     str ''  S1["1. create"]'',
     str ''  S2["2. pay"]'',
     str ''  S3["3. ship"]'',
     str ''  TR --> S1'',
     str ''  S1 --> S2'',
     str ''  S2 --> S3'']\<close>
    using flowchart_steps_ascending
      [of "ex_flow [ex_step 3 (str ''ship''), ex_step 1 (str ''create''), ex_step 2 (str ''pay'')]" "[]"]
    apply (simp only: Let_def f s)
    apply (simp add: u)
    apply (simp add: flow_eval)
    apply (simp add: str_def)
    done
  have b: \<open>generateFlowchartForFlow
      (ex_flow [ex_step 2 (str ''first''), ex_step 1 (str ''create''), ex_step 2 (str ''second'')]) [] =
    join nl [str ''flowchart TD'',
     str ''  T["checkout"]'',
     str ''  TR(["'' @ zh_trigger_colon @ str ''-"])'',
     str ''  T --> TR'',
     str ''  S1["1. create"]'',
     str ''  S2["2. first"]'',
     str ''  S3["2. second"]'',
     str ''  TR --> S1'',
     str ''  S1 --> S2'',
     str ''  S2 --> S3'']\<close>
    using flowchart_steps_ascending
      [of "ex_flow [ex_step 2 (str ''first''), ex_step 1 (str ''create''), ex_step 2 (str ''second'')]" "[]"]
    apply (simp only: Let_def f s)
    apply (simp add: u)
    apply (simp add: flow_eval)
    apply (simp add: str_def)
    done
  from a b show ?thesis by (rule conjI)
qed

text \<open>
  C8. For a flow with no steps the flowchart is the header (the title node, the trigger
  node and the edge between them), then the one placeholder node \<^verbatim>\<open>EMPTY\<close> and the one edge
  from the trigger node \<^verbatim>\<open>TR\<close> to it, then the code-location node and its dotted edge when
  the flow has a code reference: no step node is emitted.
\<close>

theorem flowchart_no_steps:
  assumes "fl_steps flow = []"
  shows \<open>generateFlowchartForFlow flow rules =
     join nl
       ([str ''flowchart TD'',
         str ''  T["'' @ escapeLabel (fl_name flow) @ str ''"]'',
         str ''  TR(["'' @
           escapeLabel (if truthy (fl_trigger flow) then zh_trigger_colon @ the (fl_trigger flow)
                        else zh_trigger_colon @ str ''-'') @ str ''"])'',
         str ''  T --> TR'',
         str ''  EMPTY["'' @ zh_no_steps @ str ''"]'',
         str ''  TR --> EMPTY''] @
        (if formatCodeRef (fl_code_ref flow) \<noteq> []
         then [str ''  CODE["'' @ escapeLabel (zh_code_colon @ formatCodeRef (fl_code_ref flow)) @
                 str ''"]'',
               str ''  T -.-> CODE'']
         else []))\<close>
proof -
  have \<open>flowchartLines flow rules =
     [str ''flowchart TD'',
      str ''  T["'' @ escapeLabel (fl_name flow) @ str ''"]'',
      str ''  TR(["'' @
        escapeLabel (if truthy (fl_trigger flow) then zh_trigger_colon @ the (fl_trigger flow)
                     else zh_trigger_colon @ str ''-'') @ str ''"])'',
      str ''  T --> TR'',
      str ''  EMPTY["'' @ zh_no_steps @ str ''"]'',
      str ''  TR --> EMPTY''] @
     (if formatCodeRef (fl_code_ref flow) \<noteq> []
      then [str ''  CODE["'' @ escapeLabel (zh_code_colon @ formatCodeRef (fl_code_ref flow)) @
              str ''"]'',
            str ''  T -.-> CODE'']
      else [])\<close>
    using assms
    by (simp add: flowchartLines_def flowchartHeader_def flowchartCode_def Let_def str_def)
  then show ?thesis by (simp only: generateFlowchartForFlow_def)
qed

text \<open>The flow \<^verbatim>\<open>checkout\<close> with no steps, no trigger and no code reference.\<close>

theorem flowchart_no_steps_witness:
  \<open>fl_steps (ex_flow []) = [] \<and>
   generateFlowchartForFlow (ex_flow []) [] =
     join nl [str ''flowchart TD'',
      str ''  T["checkout"]'',
      str ''  TR(["'' @ zh_trigger_colon @ str ''-"])'',
      str ''  T --> TR'',
      str ''  EMPTY["'' @ zh_no_steps @ str ''"]'',
      str ''  TR --> EMPTY'']\<close>
proof -
  have h: "fl_steps (ex_flow []) = []" by (simp add: ex_flow_def)
  show ?thesis
    using flowchart_no_steps [OF h, of "[]"] h
    by (simp add: ex_flow_def formatCodeRef_def escapeLabel_def replaceAll_def
        zh_trigger_colon_def nl_def str_def)
qed

section \<open>The module dependency graph\<close>

lemma safeNodeId_prefix: "prefix \<noteq> [] \<Longrightarrow> \<exists>n. safeNodeId prefix x = prefix @ n"
  by (simp add: safeNodeId_def Let_def)

lemma ext_mod_distinct: "safeNodeId (str ''ext_'') x \<noteq> safeNodeId (str ''mod_'') y"
proof -
  obtain n where n: "safeNodeId (str ''ext_'') x = str ''ext_'' @ n"
    using safeNodeId_prefix [of "str ''ext_''" x] by (auto simp: str_def)
  obtain k where k: "safeNodeId (str ''mod_'') y = str ''mod_'' @ k"
    using safeNodeId_prefix [of "str ''mod_''" y] by (auto simp: str_def)
  show ?thesis unfolding n k by (simp add: str_def)
qed

lemmas dependency_eval = generateModuleDependencyGraph_def moduleDependencyLines_def dependencyEdge_def uniqueStrings_def newSet_def
  safeNodeId_def isWordChar_def isDigit_def escapeLabel_def replaceAll_def Let_def
  ex_manifest_def ex_module_def

text \<open>
  C5, as stated, fails on the code: module \<^verbatim>\<open>a\<close> whose dependency list holds the empty
  string, which is the id of no module. \<open>uniqueStrings\<close> drops the empty string, so the
  graph has the node of \<^verbatim>\<open>a\<close> and nothing else: no edge and no external node.
\<close>

theorem dependency_empty_string_dropped:
  \<open>[] \<notin> mod_id ` set (man_modules (ex_manifest [ex_module (str ''a'') (Some [[]])] None)) \<and>
   mod_dependencies (ex_module (str ''a'') (Some [[]])) = Some [[]] \<and>
   generateModuleDependencyGraph (ex_manifest [ex_module (str ''a'') (Some [[]])] None) =
     join nl [str ''flowchart LR'', str ''  mod_a["a<br/>(a)"]'']\<close>
  by (simp add: dependency_eval str_def)

text \<open>
  C5, amended. For a manifest whose modules are \<open>A\<close> and \<open>B\<close>, where the dependency list
  of \<open>A\<close> is the id of \<open>B\<close>, that id is not the empty string and \<open>B\<close> has no dependencies,
  the graph is the header, the two module nodes and the one edge from the node of \<open>A\<close> to
  the node of \<open>B\<close>. For a manifest whose only module is \<open>A\<close>, with the dependency list
  \<open>[c]\<close> where \<open>c\<close> is not the empty string and not the id of \<open>A\<close>, the graph is the header,
  the node of \<open>A\<close>, one external node with the id \<^verbatim>\<open>ext_\<close> and \<open>c\<close> sanitized, and the one
  edge from the node of \<open>A\<close> to it. An \<^verbatim>\<open>ext_\<close> id never equals a \<^verbatim>\<open>mod_\<close> id.
\<close>

theorem dependency_graph_resolution:
  \<open>(man_modules m = [A, B] \<and> mod_dependencies A = Some [mod_id B] \<and> mod_id B \<noteq> [] \<and>
    orEmpty (mod_dependencies B) = [] \<longrightarrow>
      generateModuleDependencyGraph m =
        join nl [str ''flowchart LR'',
         str ''  '' @ safeNodeId (str ''mod_'') (mod_id A) @ str ''["'' @ escapeLabel (mod_name A) @
           str ''<br/>('' @ escapeLabel (mod_id A) @ str '')"]'',
         str ''  '' @ safeNodeId (str ''mod_'') (mod_id B) @ str ''["'' @ escapeLabel (mod_name B) @
           str ''<br/>('' @ escapeLabel (mod_id B) @ str '')"]'',
         str ''  '' @ safeNodeId (str ''mod_'') (mod_id A) @ str '' --> '' @
           safeNodeId (str ''mod_'') (mod_id B)]) \<and>
   (man_modules m = [A] \<and> mod_dependencies A = Some [c] \<and> c \<noteq> [] \<and> c \<noteq> mod_id A \<longrightarrow>
      generateModuleDependencyGraph m =
        join nl [str ''flowchart LR'',
         str ''  '' @ safeNodeId (str ''mod_'') (mod_id A) @ str ''["'' @ escapeLabel (mod_name A) @
           str ''<br/>('' @ escapeLabel (mod_id A) @ str '')"]'',
         str ''  '' @ safeNodeId (str ''ext_'') c @ str ''["'' @ escapeLabel c @ str ''<br/>('' @
           zh_external_unknown_module @ str '')"]'',
         str ''  '' @ safeNodeId (str ''mod_'') (mod_id A) @ str '' --> '' @
           safeNodeId (str ''ext_'') c]) \<and>
   safeNodeId (str ''ext_'') c \<noteq> safeNodeId (str ''mod_'') x\<close>
proof (intro conjI impI)
  assume "man_modules m = [A, B] \<and> mod_dependencies A = Some [mod_id B] \<and> mod_id B \<noteq> [] \<and>
    orEmpty (mod_dependencies B) = []"
  then show \<open>generateModuleDependencyGraph m =
        join nl [str ''flowchart LR'',
         str ''  '' @ safeNodeId (str ''mod_'') (mod_id A) @ str ''["'' @ escapeLabel (mod_name A) @
           str ''<br/>('' @ escapeLabel (mod_id A) @ str '')"]'',
         str ''  '' @ safeNodeId (str ''mod_'') (mod_id B) @ str ''["'' @ escapeLabel (mod_name B) @
           str ''<br/>('' @ escapeLabel (mod_id B) @ str '')"]'',
         str ''  '' @ safeNodeId (str ''mod_'') (mod_id A) @ str '' --> '' @
           safeNodeId (str ''mod_'') (mod_id B)]\<close>
    by (simp add: generateModuleDependencyGraph_def moduleDependencyLines_def dependencyEdge_def
        uniqueStrings_def newSet_def Let_def)
next
  assume "man_modules m = [A] \<and> mod_dependencies A = Some [c] \<and> c \<noteq> [] \<and> c \<noteq> mod_id A"
  then show \<open>generateModuleDependencyGraph m =
        join nl [str ''flowchart LR'',
         str ''  '' @ safeNodeId (str ''mod_'') (mod_id A) @ str ''["'' @ escapeLabel (mod_name A) @
           str ''<br/>('' @ escapeLabel (mod_id A) @ str '')"]'',
         str ''  '' @ safeNodeId (str ''ext_'') c @ str ''["'' @ escapeLabel c @ str ''<br/>('' @
           zh_external_unknown_module @ str '')"]'',
         str ''  '' @ safeNodeId (str ''mod_'') (mod_id A) @ str '' --> '' @
           safeNodeId (str ''ext_'') c]\<close>
    by (simp add: generateModuleDependencyGraph_def moduleDependencyLines_def dependencyEdge_def
        uniqueStrings_def newSet_def Let_def)
next
  show "safeNodeId (str ''ext_'') c \<noteq> safeNodeId (str ''mod_'') x"
    by (rule ext_mod_distinct)
qed

text \<open>
  The two scenarios on concrete manifests: module \<^verbatim>\<open>a\<close> depending on module \<^verbatim>\<open>b\<close>, and
  module \<^verbatim>\<open>a\<close> depending on the undeclared \<^verbatim>\<open>c\<close>.
\<close>

theorem dependency_graph_resolution_witness:
  \<open>generateModuleDependencyGraph
      (ex_manifest [ex_module (str ''a'') (Some [str ''b'']), ex_module (str ''b'') None] None) =
     join nl [str ''flowchart LR'', str ''  mod_a["a<br/>(a)"]'', str ''  mod_b["b<br/>(b)"]'',
      str ''  mod_a --> mod_b''] \<and>
   generateModuleDependencyGraph (ex_manifest [ex_module (str ''a'') (Some [str ''c''])] None) =
     join nl [str ''flowchart LR'', str ''  mod_a["a<br/>(a)"]'',
      str ''  ext_c["c<br/>('' @ zh_external_unknown_module @ str '')"]'',
      str ''  mod_a --> ext_c''] \<and>
   safeNodeId (str ''ext_'') (str ''c'') \<noteq> safeNodeId (str ''mod_'') (str ''c'')\<close>
proof -
  let ?A = "ex_module (str ''a'') (Some [str ''b''])"
  let ?B = "ex_module (str ''b'') None"
  let ?A' = "ex_module (str ''a'') (Some [str ''c''])"
  have h1: "man_modules (ex_manifest [?A, ?B] None) = [?A, ?B] \<and>
            mod_dependencies ?A = Some [mod_id ?B] \<and> mod_id ?B \<noteq> [] \<and>
            orEmpty (mod_dependencies ?B) = []"
    by (simp add: ex_manifest_def ex_module_def str_def)
  have h2: "man_modules (ex_manifest [?A'] None) = [?A'] \<and>
            mod_dependencies ?A' = Some [str ''c''] \<and> str ''c'' \<noteq> [] \<and> str ''c'' \<noteq> mod_id ?A'"
    by (simp add: ex_manifest_def ex_module_def str_def)
  have e: "mod_id (ex_module i d) = i" "mod_name (ex_module i d) = i" for i d
    by (simp_all add: ex_module_def)
  from h1 have \<open>generateModuleDependencyGraph (ex_manifest [?A, ?B] None) =
     join nl [str ''flowchart LR'', str ''  mod_a["a<br/>(a)"]'', str ''  mod_b["b<br/>(b)"]'',
      str ''  mod_a --> mod_b'']\<close>
    using dependency_graph_resolution [of "ex_manifest [?A, ?B] None" ?A ?B "str ''c''" "str ''c''"]
    by (simp add: e safeNodeId_def isWordChar_def isDigit_def escapeLabel_def replaceAll_def
        nl_def str_def)
  moreover from h2 have \<open>generateModuleDependencyGraph (ex_manifest [?A'] None) =
     join nl [str ''flowchart LR'', str ''  mod_a["a<br/>(a)"]'',
      str ''  ext_c["c<br/>('' @ zh_external_unknown_module @ str '')"]'',
      str ''  mod_a --> ext_c'']\<close>
    using dependency_graph_resolution [of "ex_manifest [?A'] None" ?A' ?B "str ''c''" "str ''c''"]
    by (simp add: e safeNodeId_def isWordChar_def isDigit_def escapeLabel_def replaceAll_def
        nl_def str_def)
  moreover have "safeNodeId (str ''ext_'') (str ''c'') \<noteq> safeNodeId (str ''mod_'') (str ''c'')"
    using dependency_graph_resolution [of "ex_manifest [?A'] None" ?A' ?B "str ''c''" "str ''c''"]
    by blast
  ultimately show ?thesis by blast
qed

section \<open>The outline\<close>

lemma foldl_appender:
  assumes "\<And>a b x. f (a @ b) x = a @ f b x"
  shows "foldl f (a @ b) xs = a @ foldl f b xs"
proof (induction xs arbitrary: b)
  case Nil
  then show ?case by simp
next
  case (Cons x xs)
  have "foldl f (a @ b) (x # xs) = foldl f (f (a @ b) x) xs" by simp
  also have "f (a @ b) x = a @ f b x" by (rule assms)
  also have "foldl f (a @ f b x) xs = a @ foldl f (f b x) xs" by (rule Cons.IH)
  finally show ?case by simp
qed

lemma push_app: "push (a @ b) l t = a @ push b l t"
  by (simp add: push_def)

lemma pushTitle_app: "pushTitle (a @ b) l t = a @ pushTitle b l t"
  by (simp add: pushTitle_def)

lemma pushCodeLocation_app: "pushCodeLocation (a @ b) r = a @ pushCodeLocation b r"
  by (simp add: pushCodeLocation_def push_app Let_def)

lemma moduleHeader_app: "moduleHeader (a @ b) m = a @ moduleHeader b m"
  by (simp add: moduleHeader_def push_app pushTitle_app Let_def)

lemma moduleCodeRefs_app: "moduleCodeRefs (a @ b) m = a @ moduleCodeRefs b m"
  by (simp add: moduleCodeRefs_def push_app Let_def foldl_appender)

lemma flowStepToMarkdown_app: "flowStepToMarkdown (a @ b) s = a @ flowStepToMarkdown b s"
  by (simp add: flowStepToMarkdown_def push_app Let_def)

lemma flowToMarkdown_app: "flowToMarkdown (a @ b) f = a @ flowToMarkdown b f"
  by (simp add: flowToMarkdown_def push_app pushCodeLocation_app Let_def
      foldl_appender [of flowStepToMarkdown, OF flowStepToMarkdown_app])

lemma moduleFlows_app: "moduleFlows (a @ b) m = a @ moduleFlows b m"
  by (simp add: moduleFlows_def push_app foldl_appender [of flowToMarkdown, OF flowToMarkdown_app])

lemma ruleToMarkdown_app: "ruleToMarkdown (a @ b) r = a @ ruleToMarkdown b r"
  by (simp add: ruleToMarkdown_def push_app pushCodeLocation_app Let_def)

lemma moduleRules_app: "moduleRules (a @ b) m = a @ moduleRules b m"
  by (simp add: moduleRules_def push_app foldl_appender [of ruleToMarkdown, OF ruleToMarkdown_app])

lemma stateToMarkdown_app: "stateToMarkdown (a @ b) s = a @ stateToMarkdown b s"
  by (simp add: stateToMarkdown_def push_app Let_def)

lemma transitionToMarkdown_app: "transitionToMarkdown (a @ b) t = a @ transitionToMarkdown b t"
  by (simp add: transitionToMarkdown_def push_app Let_def)

lemma stateMachineToMarkdown_app: "stateMachineToMarkdown (a @ b) sm = a @ stateMachineToMarkdown b sm"
  by (simp add: stateMachineToMarkdown_def push_app Let_def
      foldl_appender [of stateToMarkdown, OF stateToMarkdown_app]
      foldl_appender [of transitionToMarkdown, OF transitionToMarkdown_app])

lemma moduleStateMachines_app: "moduleStateMachines (a @ b) m = a @ moduleStateMachines b m"
  by (simp add: moduleStateMachines_def push_app
      foldl_appender [of stateMachineToMarkdown, OF stateMachineToMarkdown_app])

lemma pseudocodeStepToMarkdown_app:
  "pseudocodeStepToMarkdown (a @ b) s = a @ pseudocodeStepToMarkdown b s"
  by (simp add: pseudocodeStepToMarkdown_def push_app Let_def)

lemma pseudocodeToMarkdown_app: "pseudocodeToMarkdown (a @ b) pc = a @ pseudocodeToMarkdown b pc"
  by (simp add: pseudocodeToMarkdown_def push_app pushCodeLocation_app Let_def
      foldl_appender [of pseudocodeStepToMarkdown, OF pseudocodeStepToMarkdown_app])

lemma modulePseudocodes_app: "modulePseudocodes (a @ b) m = a @ modulePseudocodes b m"
  by (simp add: modulePseudocodes_def push_app
      foldl_appender [of pseudocodeToMarkdown, OF pseudocodeToMarkdown_app])

lemma moduleToMarkdown_app: "moduleToMarkdown (a @ b) m = a @ moduleToMarkdown b m"
  by (simp add: moduleToMarkdown_def moduleHeader_app moduleCodeRefs_app moduleFlows_app
      moduleRules_app moduleStateMachines_app modulePseudocodes_app)

lemma keyFieldToMarkdown_app: "keyFieldToMarkdown (a @ b) f = a @ keyFieldToMarkdown b f"
  by (simp add: keyFieldToMarkdown_def push_app Let_def)

lemma entityStatusToMarkdown_app: "entityStatusToMarkdown (a @ b) s = a @ entityStatusToMarkdown b s"
  by (simp add: entityStatusToMarkdown_def push_app)

lemma entityToMarkdown_app: "entityToMarkdown (a @ b) e = a @ entityToMarkdown b e"
  by (simp add: entityToMarkdown_def push_app pushTitle_app Let_def
      foldl_appender [of keyFieldToMarkdown, OF keyFieldToMarkdown_app]
      foldl_appender [of entityStatusToMarkdown, OF entityStatusToMarkdown_app])

lemma dataModelToMarkdown_app: "dataModelToMarkdown (a @ b) m = a @ dataModelToMarkdown b m"
  by (simp add: dataModelToMarkdown_def push_app pushTitle_app Let_def foldl_appender)

lemma markdownTail_app: "markdownTail (a @ b) m = a @ markdownTail b m"
  by (simp add: markdownTail_def push_app pushTitle_app Let_def foldl_appender
      foldl_appender [of dataModelToMarkdown, OF dataModelToMarkdown_app])

lemma moduleToMarkdown_blocks:
  "moduleToMarkdown lines m =
     lines @ moduleHeader [] m @ moduleCodeRefs [] m @ moduleFlows [] m @ moduleRules [] m @
     moduleStateMachines [] m @ modulePseudocodes [] m"
proof -
  have "moduleToMarkdown lines m =
          modulePseudocodes (moduleStateMachines (moduleRules (moduleFlows (moduleCodeRefs
            (moduleHeader lines m) m) m) m) m) m"
    by (simp add: moduleToMarkdown_def)
  also have "moduleHeader lines m = lines @ moduleHeader [] m"
    using moduleHeader_app [of lines "[]" m] by simp
  also have "moduleCodeRefs (lines @ moduleHeader [] m) m =
               (lines @ moduleHeader [] m) @ moduleCodeRefs [] m"
    using moduleCodeRefs_app [of "lines @ moduleHeader [] m" "[]" m] by simp
  also have "moduleFlows ((lines @ moduleHeader [] m) @ moduleCodeRefs [] m) m =
               ((lines @ moduleHeader [] m) @ moduleCodeRefs [] m) @ moduleFlows [] m"
    using moduleFlows_app [of "(lines @ moduleHeader [] m) @ moduleCodeRefs [] m" "[]" m] by simp
  also have "moduleRules (((lines @ moduleHeader [] m) @ moduleCodeRefs [] m) @ moduleFlows [] m) m =
               (((lines @ moduleHeader [] m) @ moduleCodeRefs [] m) @ moduleFlows [] m) @
               moduleRules [] m"
    using moduleRules_app
      [of "((lines @ moduleHeader [] m) @ moduleCodeRefs [] m) @ moduleFlows [] m" "[]" m]
    by simp
  also have "moduleStateMachines ((((lines @ moduleHeader [] m) @ moduleCodeRefs [] m) @
                 moduleFlows [] m) @ moduleRules [] m) m =
               ((((lines @ moduleHeader [] m) @ moduleCodeRefs [] m) @ moduleFlows [] m) @
                 moduleRules [] m) @ moduleStateMachines [] m"
    using moduleStateMachines_app
      [of "(((lines @ moduleHeader [] m) @ moduleCodeRefs [] m) @ moduleFlows [] m) @
           moduleRules [] m" "[]" m]
    by simp
  also have "modulePseudocodes (((((lines @ moduleHeader [] m) @ moduleCodeRefs [] m) @
                 moduleFlows [] m) @ moduleRules [] m) @ moduleStateMachines [] m) m =
               (((((lines @ moduleHeader [] m) @ moduleCodeRefs [] m) @ moduleFlows [] m) @
                 moduleRules [] m) @ moduleStateMachines [] m) @ modulePseudocodes [] m"
    using modulePseudocodes_app
      [of "((((lines @ moduleHeader [] m) @ moduleCodeRefs [] m) @ moduleFlows [] m) @
           moduleRules [] m) @ moduleStateMachines [] m" "[]" m]
    by simp
  finally show ?thesis by simp
qed


lemma mem_foldl:
  assumes "\<And>a b x. f (a @ b) x = a @ f b x" and "l \<in> set ls"
  shows "l \<in> set (foldl f ls xs)"
  using foldl_appender [of f ls "[]" xs, OF assms(1)] assms(2) by simp

lemma push0: "push ls 0 t = ls @ [str ''- '' @ t]"
  by (simp add: push_def repeat_def)

lemma pushTitle2: "pushTitle ls 2 t = ls @ [str ''## '' @ t]"
  by (simp add: pushTitle_def repeat_def str_def numeral_2_eq_2)

lemma block_heads:
  "mod_code_refs m = Some rs \<Longrightarrow> rs \<noteq> [] \<Longrightarrow>
     str ''- '' @ zh_code_entries @ zh_lparen @ showNat (length rs) @ zh_rparen
       \<in> set (moduleCodeRefs [] m)"
  "mod_flows m \<noteq> [] \<Longrightarrow>
     str ''- '' @ zh_flows @ zh_lparen @ showNat (length (mod_flows m)) @ zh_rparen
       \<in> set (moduleFlows [] m)"
  "mod_rules m \<noteq> [] \<Longrightarrow>
     str ''- '' @ zh_rules @ zh_lparen @ showNat (length (mod_rules m)) @ zh_rparen
       \<in> set (moduleRules [] m)"
  "mod_state_machines m \<noteq> [] \<Longrightarrow>
     str ''- '' @ zh_state_machines @ zh_lparen @ showNat (length (mod_state_machines m)) @ zh_rparen
       \<in> set (moduleStateMachines [] m)"
  "mod_pseudocodes m \<noteq> [] \<Longrightarrow>
     str ''- '' @ zh_pseudocodes @ zh_lparen @ showNat (length (mod_pseudocodes m)) @ zh_rparen
       \<in> set (modulePseudocodes [] m)"
proof -
  show "mod_code_refs m = Some rs \<Longrightarrow> rs \<noteq> [] \<Longrightarrow>
     str ''- '' @ zh_code_entries @ zh_lparen @ showNat (length rs) @ zh_rparen
       \<in> set (moduleCodeRefs [] m)"
    unfolding moduleCodeRefs_def by (simp, rule mem_foldl) (simp_all add: push_app Let_def push0)
  show "mod_flows m \<noteq> [] \<Longrightarrow>
     str ''- '' @ zh_flows @ zh_lparen @ showNat (length (mod_flows m)) @ zh_rparen
       \<in> set (moduleFlows [] m)"
    unfolding moduleFlows_def by (simp, rule mem_foldl) (simp_all add: flowToMarkdown_app push0)
  show "mod_rules m \<noteq> [] \<Longrightarrow>
     str ''- '' @ zh_rules @ zh_lparen @ showNat (length (mod_rules m)) @ zh_rparen
       \<in> set (moduleRules [] m)"
    unfolding moduleRules_def by (simp, rule mem_foldl) (simp_all add: ruleToMarkdown_app push0)
  show "mod_state_machines m \<noteq> [] \<Longrightarrow>
     str ''- '' @ zh_state_machines @ zh_lparen @ showNat (length (mod_state_machines m)) @ zh_rparen
       \<in> set (moduleStateMachines [] m)"
    unfolding moduleStateMachines_def
    by (simp, rule mem_foldl) (simp_all add: stateMachineToMarkdown_app push0)
  show "mod_pseudocodes m \<noteq> [] \<Longrightarrow>
     str ''- '' @ zh_pseudocodes @ zh_lparen @ showNat (length (mod_pseudocodes m)) @ zh_rparen
       \<in> set (modulePseudocodes [] m)"
    unfolding modulePseudocodes_def
    by (simp, rule mem_foldl) (simp_all add: pseudocodeToMarkdown_app push0)
qed

lemma markdownModules_heading:
  "str ''## '' @ zh_modules @ zh_lparen @ showNat (length (man_modules m)) @ zh_rparen
     \<in> set (markdownModules m)"
  unfolding markdownModules_def Let_def
  by (rule mem_foldl) (simp_all add: moduleToMarkdown_app pushTitle2)

lemma markdownTail_superset: "l \<in> set ls \<Longrightarrow> l \<in> set (markdownTail ls m)"
  using markdownTail_app [of ls "[]" m] by simp

lemma markdownTail_headings:
  "str ''## '' @ zh_data_models @ zh_lparen @ showNat (length (man_data_models m)) @ zh_rparen
     \<in> set (markdownTail ls m)"
  "str ''## '' @ zh_glossary @ zh_lparen @ showNat (length (man_glossary m)) @ zh_rparen
     \<in> set (markdownTail ls m)"
  "str ''## '' @ zh_changelog @ zh_lparen @ showNat (length (man_changelog m)) @ zh_rparen
     \<in> set (markdownTail ls m)"
proof -
  define l1 where "l1 = pushTitle ls 2
    (zh_data_models @ zh_lparen @ showNat (length (man_data_models m)) @ zh_rparen)"
  define l2 where "l2 = foldl dataModelToMarkdown l1 (man_data_models m)"
  define l3 where "l3 = pushTitle l2 2
    (zh_glossary @ zh_lparen @ showNat (length (man_glossary m)) @ zh_rparen)"
  define l4 where "l4 = foldl (\<lambda>lines kv.
                    push lines 0
                      (mdEscape (fst kv) @ zh_lparen @ mdEscape (ge_term (snd kv)) @ zh_rparen @
                       zh_colon @ mdEscape (ge_description (snd kv)))) l3 (man_glossary m)"
  define l5 where "l5 = pushTitle l4 2
    (zh_changelog @ zh_lparen @ showNat (length (man_changelog m)) @ zh_rparen)"
  define l6 where "l6 = foldl (\<lambda>lines c.
             push lines 0
               (mdEscape (cl_date c) @ str '' / '' @ mdEscape (changeTypeText (cl_type c)) @
                zh_colon @ mdEscape (cl_summary c))) l5 (man_changelog m)"
  have tail: "markdownTail ls m = l6"
    by (simp add: markdownTail_def Let_def l1_def l2_def l3_def l4_def l5_def l6_def)
  have s12: "set l1 \<subseteq> set l2"
    unfolding l2_def by (auto intro: mem_foldl simp: dataModelToMarkdown_app)
  have s23: "set l2 \<subseteq> set l3" unfolding l3_def by (auto simp: pushTitle2)
  have s34: "set l3 \<subseteq> set l4"
    unfolding l4_def by (auto intro!: mem_foldl simp: push_app)
  have s45: "set l4 \<subseteq> set l5" unfolding l5_def by (auto simp: pushTitle2)
  have s56: "set l5 \<subseteq> set l6"
    unfolding l6_def by (auto intro!: mem_foldl simp: push_app)
  have "str ''## '' @ zh_data_models @ zh_lparen @ showNat (length (man_data_models m)) @ zh_rparen
          \<in> set l1"
    unfolding l1_def by (simp add: pushTitle2)
  with s12 s23 s34 s45 s56 tail
  show "str ''## '' @ zh_data_models @ zh_lparen @ showNat (length (man_data_models m)) @ zh_rparen
     \<in> set (markdownTail ls m)"
    by blast
  have "str ''## '' @ zh_glossary @ zh_lparen @ showNat (length (man_glossary m)) @ zh_rparen
          \<in> set l3"
    unfolding l3_def by (simp add: pushTitle2)
  with s34 s45 s56 tail
  show "str ''## '' @ zh_glossary @ zh_lparen @ showNat (length (man_glossary m)) @ zh_rparen
     \<in> set (markdownTail ls m)"
    by blast
  have "str ''## '' @ zh_changelog @ zh_lparen @ showNat (length (man_changelog m)) @ zh_rparen
          \<in> set l5"
    unfolding l5_def by (simp add: pushTitle2)
  with s56 tail
  show "str ''## '' @ zh_changelog @ zh_lparen @ showNat (length (man_changelog m)) @ zh_rparen
     \<in> set (markdownTail ls m)"
    by blast
qed

lemma mindmapMarkdownLines_Inr:
  assumes "man_entities m = Some es"
  shows "mindmapMarkdownLines m =
           Inr (markdownTail
                  (foldl entityToMarkdown
                     (pushTitle (markdownModules m) 2
                        (zh_entities @ zh_lparen @ showNat (length es) @ zh_rparen)) es) m)"
  using assms by (simp add: mindmapMarkdownLines_def Let_def)

lemmas outline_eval = mindmapMarkdownLines_def markdownModules_def markdownTail_def
  moduleToMarkdown_def moduleHeader_def moduleCodeRefs_def moduleFlows_def moduleRules_def
  moduleStateMachines_def modulePseudocodes_def pushTitle_def push_def repeat_0 repeat_Suc repeat_numeral mdEscape_def
  replaceAll_def trim_def isTrimSpace_def Let_def ex_manifest_def ex_module_def showNat_small

subsection \<open>The line shapes are an invariant of the outline\<close>

lemma showNat_zero: "showNat n = [0x30] \<Longrightarrow> n = 0"
proof (cases "n < 10")
  case True
  assume a: "showNat n = [0x30]"
  have "unat (of_nat (48 + n) :: 16 word) = (48 + n) mod 2 ^ LENGTH(16)"
    by (rule unat_of_nat)
  also have "\<dots> = 48 + n" using True by simp
  finally have u: "unat (of_nat (48 + n) :: 16 word) = 48 + n" .
  from a True have "(of_nat (48 + n) :: 16 word) = 0x30"
    by (simp add: showNat.simps [of n])
  then have "unat (of_nat (48 + n) :: 16 word) = unat (0x30 :: 16 word)" by simp
  with u show ?thesis by simp
next
  case False
  assume a: "showNat n = [0x30]"
  have "showNat (n div 10) \<noteq> []" using showNat_digits by blast
  then have "length (showNat n) \<ge> 2"
    using False by (cases "showNat (n div 10)") (simp_all add: showNat.simps [of n])
  with a show ?thesis by simp
qed

lemma outlineLines_Nil: "outlineLines []"
  by (simp add: outlineLines_def)

lemma outlineLines_snoc: "outlineLines (ls @ [l]) \<longleftrightarrow> outlineLines ls \<and> outlineLine l"
  by (auto simp: outlineLines_def)

lemma repeat_ge3: "3 \<le> k \<Longrightarrow> \<exists>t. repeat (str ''  '') k = str ''      '' @ t"
proof -
  assume "3 \<le> k"
  then obtain j where "k = Suc (Suc (Suc j))"
    by (metis Suc_le_D numeral_3_eq_3 Suc_le_mono)
  then have "repeat (str ''  '') k = str ''      '' @ repeat (str ''  '') j"
    by (simp add: repeat_def str_def)
  then show ?thesis by blast
qed

lemma push_line: "push ls lvl t = ls @ [repeat (str ''  '') (nat (max 0 lvl)) @ str ''- '' @ t]"
  by (simp add: push_def)

lemma push_level1: "outlineLines (push ls 1 t) \<longleftrightarrow> outlineLines ls"
proof -
  have e: "repeat (str ''  '') (nat (max 0 1)) @ str ''- '' @ t = str ''  - '' @ t"
    by (simp add: repeat_def str_def)
  have "outlineLine (repeat (str ''  '') (nat (max 0 1)) @ str ''- '' @ t)"
    unfolding e by (rule outlineLine.level1)
  then show ?thesis
    by (simp add: push_line outlineLines_snoc)
qed

lemma push_deeper: "3 \<le> lvl \<Longrightarrow> outlineLines (push ls lvl t) \<longleftrightarrow> outlineLines ls"
proof -
  assume "3 \<le> lvl"
  then have "3 \<le> nat (max 0 lvl)" by simp
  then obtain u where "repeat (str ''  '') (nat (max 0 lvl)) = str ''      '' @ u"
    using repeat_ge3 by blast
  then have "outlineLine (repeat (str ''  '') (nat (max 0 lvl)) @ str ''- '' @ t)"
    using outlineLine.deeper [of "u @ str ''- '' @ t"] by simp
  then show ?thesis
    by (simp add: push_def outlineLines_snoc)
qed

lemma push_labelled: "0xFF1A \<in> set t \<Longrightarrow> outlineLines (push ls lvl t) \<longleftrightarrow> outlineLines ls"
  by (simp add: push_def outlineLines_snoc outlineLine.labelled)

lemma pushTitle_line: "outlineLines (pushTitle ls lvl t) \<longleftrightarrow> outlineLines ls"
proof -
  have "0 < nat (min 6 (max 1 lvl))" by simp
  then obtain j where "nat (min 6 (max 1 lvl)) = Suc j"
    using gr0_implies_Suc by blast
  then have "repeat (str ''#'') (nat (min 6 (max 1 lvl))) @ str '' '' @ t =
             str ''#'' @ (repeat (str ''#'') j @ str '' '' @ t)"
    by (simp add: repeat_def)
  then show ?thesis
    by (simp add: pushTitle_def outlineLines_snoc outlineLine.title)
qed

lemma push_count0:
  "0 < n \<Longrightarrow>
   L \<in> {zh_code_entries, zh_flows, zh_rules, zh_state_machines, zh_pseudocodes, zh_key_fields,
         zh_states, zh_fields} \<Longrightarrow>
   outlineLines (push ls 0 (L @ zh_lparen @ showNat n @ zh_rparen)) \<longleftrightarrow> outlineLines ls"
  using outlineLine.count0 [of n L]
  by (simp add: push_def repeat_def outlineLines_snoc)

lemma push_count2:
  "0 < n \<Longrightarrow> L \<in> {zh_steps, zh_transitions} \<Longrightarrow>
   outlineLines (push ls 2 (L @ zh_lparen @ showNat n @ zh_rparen)) \<longleftrightarrow> outlineLines ls"
proof -
  assume a: "0 < n" "L \<in> {zh_steps, zh_transitions}"
  have e: "repeat (str ''  '') (nat (max 0 2)) @ str ''- '' @ L @ zh_lparen @ showNat n @ zh_rparen =
        str ''    - '' @ L @ zh_lparen @ showNat n @ zh_rparen"
    by (simp add: repeat_numeral repeat_Suc repeat_0 str_def)
  have "outlineLine (repeat (str ''  '') (nat (max 0 2)) @ str ''- '' @ L @ zh_lparen @ showNat n @
          zh_rparen)"
    unfolding e by (rule outlineLine.count2 [OF a])
  then show ?thesis
    by (simp add: push_line outlineLines_snoc)
qed

lemma push_states2:
  "outlineLines (push ls 2 (zh_states @ zh_lparen @ showNat n @ zh_rparen)) \<longleftrightarrow> outlineLines ls"
proof -
  have e: "repeat (str ''  '') (nat (max 0 2)) @ str ''- '' @ zh_states @ zh_lparen @ showNat n @
             zh_rparen = str ''    - '' @ zh_states @ zh_lparen @ showNat n @ zh_rparen"
    by (simp add: repeat_numeral repeat_Suc repeat_0 str_def)
  have "outlineLine (repeat (str ''  '') (nat (max 0 2)) @ str ''- '' @ zh_states @ zh_lparen @
          showNat n @ zh_rparen)"
    unfolding e by (rule outlineLine.states2)
  then show ?thesis
    by (simp add: push_line outlineLines_snoc)
qed

lemma foldl_outlineLines:
  assumes "\<And>ls x. outlineLines (f ls x) = outlineLines ls"
  shows "outlineLines (foldl f ls xs) = outlineLines ls"
  by (induction xs arbitrary: ls) (simp_all add: assms)

lemmas colon_labels = zh_description_colon_def zh_tags_colon_def zh_colon_def zh_trigger_colon_def
  zh_code_location_colon_def zh_priority_colon_def zh_category_colon_def zh_returns_colon_def
  zh_project_description_colon_def zh_updated_at_colon_def zh_related_models_colon_def
  zh_source_colon_def zh_entity_colon_def zh_project_colon_def

lemma pushCodeLocation_line: "outlineLines (pushCodeLocation ls r) = outlineLines ls"
  by (simp add: pushCodeLocation_def Let_def push_labelled colon_labels)

lemma moduleHeader_line: "outlineLines (moduleHeader ls m) = outlineLines ls"
  by (simp add: moduleHeader_def Let_def push_labelled pushTitle_line colon_labels)

lemma moduleCodeRefs_line: "outlineLines (moduleCodeRefs ls m) = outlineLines ls"
  by (simp add: moduleCodeRefs_def Let_def push_level1 push_count0 foldl_outlineLines)

lemma flowStepToMarkdown_line: "outlineLines (flowStepToMarkdown ls s) = outlineLines ls"
  by (simp add: flowStepToMarkdown_def Let_def push_deeper)

lemma flowToMarkdown_line: "outlineLines (flowToMarkdown ls f) = outlineLines ls"
  by (simp add: flowToMarkdown_def Let_def push_level1 push_labelled push_count2
      pushCodeLocation_line flowStepToMarkdown_line foldl_outlineLines colon_labels)

lemma moduleFlows_line: "outlineLines (moduleFlows ls m) = outlineLines ls"
  by (simp add: moduleFlows_def push_count0 flowToMarkdown_line foldl_outlineLines)

lemma ruleToMarkdown_line: "outlineLines (ruleToMarkdown ls r) = outlineLines ls"
  by (simp add: ruleToMarkdown_def Let_def push_level1 push_labelled pushCodeLocation_line
      colon_labels)

lemma moduleRules_line: "outlineLines (moduleRules ls m) = outlineLines ls"
  by (simp add: moduleRules_def push_count0 ruleToMarkdown_line foldl_outlineLines)

lemma stateToMarkdown_line: "outlineLines (stateToMarkdown ls s) = outlineLines ls"
  by (simp add: stateToMarkdown_def Let_def push_deeper)

lemma transitionToMarkdown_line: "outlineLines (transitionToMarkdown ls t) = outlineLines ls"
  by (simp add: transitionToMarkdown_def Let_def push_deeper)

lemma stateMachineToMarkdown_line: "outlineLines (stateMachineToMarkdown ls sm) = outlineLines ls"
  by (simp add: stateMachineToMarkdown_def Let_def push_level1 push_labelled push_count2
      push_states2 stateToMarkdown_line transitionToMarkdown_line foldl_outlineLines colon_labels)

lemma moduleStateMachines_line: "outlineLines (moduleStateMachines ls m) = outlineLines ls"
  by (simp add: moduleStateMachines_def push_count0 stateMachineToMarkdown_line foldl_outlineLines)

lemma pseudocodeStepToMarkdown_line: "outlineLines (pseudocodeStepToMarkdown ls s) = outlineLines ls"
  by (simp add: pseudocodeStepToMarkdown_def Let_def push_deeper)

lemma pseudocodeToMarkdown_line: "outlineLines (pseudocodeToMarkdown ls pc) = outlineLines ls"
  by (simp add: pseudocodeToMarkdown_def Let_def push_level1 push_labelled push_count2
      pushCodeLocation_line pseudocodeStepToMarkdown_line foldl_outlineLines colon_labels)

lemma modulePseudocodes_line: "outlineLines (modulePseudocodes ls m) = outlineLines ls"
  by (simp add: modulePseudocodes_def push_count0 pseudocodeToMarkdown_line foldl_outlineLines)

lemma moduleToMarkdown_line: "outlineLines (moduleToMarkdown ls m) = outlineLines ls"
  by (simp add: moduleToMarkdown_def moduleHeader_line moduleCodeRefs_line moduleFlows_line
      moduleRules_line moduleStateMachines_line modulePseudocodes_line)

lemma keyFieldToMarkdown_line: "outlineLines (keyFieldToMarkdown ls f) = outlineLines ls"
  by (simp add: keyFieldToMarkdown_def Let_def push_level1)

lemma entityStatusToMarkdown_line: "outlineLines (entityStatusToMarkdown ls s) = outlineLines ls"
  by (simp add: entityStatusToMarkdown_def push_level1)

lemma entityToMarkdown_line: "outlineLines (entityToMarkdown ls e) = outlineLines ls"
  by (simp add: entityToMarkdown_def Let_def push_labelled push_count0 pushTitle_line
      keyFieldToMarkdown_line entityStatusToMarkdown_line foldl_outlineLines colon_labels)

lemma dataModelToMarkdown_line: "outlineLines (dataModelToMarkdown ls m) = outlineLines ls"
  by (simp add: dataModelToMarkdown_def Let_def push_labelled push_count0 push_level1
      pushTitle_line foldl_outlineLines colon_labels)

lemma markdownTail_line: "outlineLines (markdownTail ls m) = outlineLines ls"
  by (simp add: markdownTail_def Let_def push_labelled pushTitle_line dataModelToMarkdown_line
      foldl_outlineLines colon_labels)

lemma markdownModules_line: "outlineLines (markdownModules m)"
  by (simp add: markdownModules_def Let_def push_labelled pushTitle_line moduleToMarkdown_line
      foldl_outlineLines outlineLines_Nil colon_labels)

lemma mindmapMarkdownLines_line:
  "mindmapMarkdownLines m = Inr ls \<Longrightarrow> outlineLines ls"
  by (cases "man_entities m")
    (auto simp: mindmapMarkdownLines_def Let_def markdownTail_line pushTitle_line
      entityToMarkdown_line foldl_outlineLines markdownModules_line)

subsection \<open>No line announces a count of 0, a machine's states apart\<close>

lemmas labels = zh_code_entries_def zh_flows_def zh_rules_def zh_state_machines_def
  zh_pseudocodes_def zh_key_fields_def zh_states_def zh_fields_def zh_steps_def zh_transitions_def
  zh_lparen_def zh_rparen_def

lemma snoc_eq2: "[a, b] = xs @ [c] \<longleftrightarrow> xs = [a] \<and> b = c"
  by (cases xs) auto

lemma zero_count0_not_line:
  assumes "L \<in> {zh_code_entries, zh_flows, zh_rules, zh_state_machines, zh_pseudocodes,
                 zh_key_fields, zh_states, zh_fields}"
  shows "\<not> outlineLine (str ''- '' @ L @ zh_lparen @ str ''0'' @ zh_rparen)"
proof
  assume "outlineLine (str ''- '' @ L @ zh_lparen @ str ''0'' @ zh_rparen)"
  then show False
  proof (cases rule: outlineLine.cases)
    case (title t)
    then show ?thesis by (simp add: str_def)
  next
    case labelled
    with assms show ?thesis by (auto simp: labels str_def)
  next
    case (count0 n L')
    with assms have "showNat n = [0x30]"
      by (auto simp: labels str_def snoc_eq2)
    with count0(2) show ?thesis using showNat_zero by blast
  next
    case (level1 t)
    then show ?thesis by (simp add: str_def)
  next
    case (count2 n L')
    then show ?thesis by (simp add: str_def)
  next
    case (states2 n)
    then show ?thesis by (simp add: str_def)
  next
    case (deeper t)
    then show ?thesis by (simp add: str_def)
  qed
qed

lemma zero_count2_not_line:
  assumes "L \<in> {zh_steps, zh_transitions}"
  shows "\<not> outlineLine (str ''    - '' @ L @ zh_lparen @ str ''0'' @ zh_rparen)"
proof
  assume "outlineLine (str ''    - '' @ L @ zh_lparen @ str ''0'' @ zh_rparen)"
  then show False
  proof (cases rule: outlineLine.cases)
    case (title t)
    then show ?thesis by (simp add: str_def)
  next
    case labelled
    with assms show ?thesis by (auto simp: labels str_def)
  next
    case (count0 n L')
    then show ?thesis by (simp add: str_def)
  next
    case (level1 t)
    then show ?thesis by (simp add: str_def)
  next
    case (count2 n L')
    with assms have "showNat n = [0x30]"
      by (auto simp: labels str_def snoc_eq2)
    with count2(2) show ?thesis using showNat_zero by blast
  next
    case (states2 n)
    with assms show ?thesis by (auto simp: labels str_def)
  next
    case (deeper t)
    then show ?thesis by (simp add: str_def)
  qed
qed

subsection \<open>The lines of a nested block are lines of the outline\<close>

lemma foldl_law_concat:
  assumes "\<And>a b x. f (a @ b) x = a @ f b x"
  shows "foldl f ls xs = ls @ concat (map (f []) xs)"
proof (induction xs arbitrary: ls)
  case Nil
  then show ?case by simp
next
  case (Cons x xs)
  have "f ls x = ls @ f [] x" using assms [of ls "[]" x] by simp
  then show ?case by (simp add: Cons.IH)
qed

lemma mem_foldl_elem:
  assumes "\<And>a b x. f (a @ b) x = a @ f b x" and "x \<in> set xs" and "l \<in> set (f [] x)"
  shows "l \<in> set (foldl f ls xs)"
  using assms(2,3) by (auto simp: foldl_law_concat [of f, OF assms(1)])

lemma push2: "push ls 2 t = ls @ [str ''    - '' @ t]"
  by (simp add: push_def repeat_numeral repeat_Suc repeat_0 str_def)

lemma steps_line_in_flow:
  "fl_steps f \<noteq> [] \<Longrightarrow>
   str ''    - '' @ zh_steps @ zh_lparen @ showNat (length (fl_steps f)) @ zh_rparen
     \<in> set (flowToMarkdown ls f)"
  by (auto simp: flowToMarkdown_def Let_def push2 flowStepToMarkdown_app intro!: mem_foldl)

lemma states_line_in_machine:
  "str ''    - '' @ zh_states @ zh_lparen @ showNat (length (sm_states sm)) @ zh_rparen
     \<in> set (stateMachineToMarkdown ls sm)"
proof -
  let ?l = "str ''    - '' @ zh_states @ zh_lparen @ showNat (length (sm_states sm)) @ zh_rparen"
  let ?l1 = "if truthy (sm_description sm)
             then push (push ls 1
                    (mdEscape (sm_name sm) @ zh_lparen @ mdEscape (sm_entity sm) @ str ''.'' @
                     mdEscape (sm_field sm) @ zh_rparen)) 2
                    (zh_description_colon @ mdEscape (the (sm_description sm)))
             else push ls 1
                    (mdEscape (sm_name sm) @ zh_lparen @ mdEscape (sm_entity sm) @ str ''.'' @
                     mdEscape (sm_field sm) @ zh_rparen)"
  let ?l2 = "push ?l1 2 (zh_states @ zh_lparen @ showNat (length (sm_states sm)) @ zh_rparen)"
  let ?l3 = "foldl stateToMarkdown ?l2 (sm_states sm)"
  have "?l \<in> set ?l2" by (simp add: push2)
  then have a: "?l \<in> set ?l3" by (rule mem_foldl [OF stateToMarkdown_app])
  then have "?l \<in> set (push ?l3 2
      (zh_transitions @ zh_lparen @ showNat (length (sm_transitions sm)) @ zh_rparen))"
    by (simp add: push2)
  then have b: "?l \<in> set (foldl transitionToMarkdown (push ?l3 2
      (zh_transitions @ zh_lparen @ showNat (length (sm_transitions sm)) @ zh_rparen))
      (sm_transitions sm))"
    by (rule mem_foldl [OF transitionToMarkdown_app])
  have "stateMachineToMarkdown ls sm =
          (if length (sm_transitions sm) > 0
           then foldl transitionToMarkdown (push ?l3 2
                  (zh_transitions @ zh_lparen @ showNat (length (sm_transitions sm)) @ zh_rparen))
                  (sm_transitions sm)
           else ?l3)"
    by (simp add: stateMachineToMarkdown_def Let_def)
  with a b show ?thesis by simp
qed

lemma transitions_line_in_machine:
  "sm_transitions sm \<noteq> [] \<Longrightarrow>
   str ''    - '' @ zh_transitions @ zh_lparen @ showNat (length (sm_transitions sm)) @ zh_rparen
     \<in> set (stateMachineToMarkdown ls sm)"
  by (auto simp: stateMachineToMarkdown_def Let_def push2 transitionToMarkdown_app
      intro!: mem_foldl)

lemma steps_line_in_pseudocode:
  "pc_steps pc \<noteq> [] \<Longrightarrow>
   str ''    - '' @ zh_steps @ zh_lparen @ showNat (length (pc_steps pc)) @ zh_rparen
     \<in> set (pseudocodeToMarkdown ls pc)"
  by (auto simp: pseudocodeToMarkdown_def Let_def push2 pseudocodeStepToMarkdown_app
      intro!: mem_foldl)

lemma key_fields_line_in_entity:
  "orEmpty (en_key_fields e) \<noteq> [] \<Longrightarrow>
   str ''- '' @ zh_key_fields @ zh_lparen @ showNat (length (orEmpty (en_key_fields e))) @ zh_rparen
     \<in> set (entityToMarkdown ls e)"
proof -
  assume "orEmpty (en_key_fields e) \<noteq> []"
  then obtain ks where k: "en_key_fields e = Some ks" "ks \<noteq> []"
    by (cases "en_key_fields e") auto
  let ?l = "str ''- '' @ zh_key_fields @ zh_lparen @ showNat (length ks) @ zh_rparen"
  let ?base = "push (pushTitle ls 3 (mdEscape (en_name e) @ zh_lparen @ mdEscape (en_id e) @ zh_rparen))
               0 (zh_description_colon @ mdEscape (String_of (en_description e)))"
  let ?mid = "if en_models e \<noteq> None \<and> length (the (en_models e)) > 0
             then push ?base 0 (zh_related_models_colon @ mdEscape (join zh_comma (the (en_models e))))
             else ?base"
  let ?kf = "foldl keyFieldToMarkdown
               (push ?mid 0 (zh_key_fields @ zh_lparen @ showNat (length ks) @ zh_rparen)) ks"
  have a: "?l \<in> set ?kf"
    by (rule mem_foldl [OF keyFieldToMarkdown_app]) (simp add: push0)
  then have "?l \<in> set (push ?kf 0
      (zh_states @ zh_lparen @ showNat (length (the (en_statuses e))) @ zh_rparen))"
    by (simp add: push0)
  then have b: "?l \<in> set (foldl entityStatusToMarkdown (push ?kf 0
      (zh_states @ zh_lparen @ showNat (length (the (en_statuses e))) @ zh_rparen))
      (the (en_statuses e)))"
    by (rule mem_foldl [OF entityStatusToMarkdown_app])
  have "entityToMarkdown ls e =
          (if en_statuses e \<noteq> None \<and> length (the (en_statuses e)) > 0
           then foldl entityStatusToMarkdown (push ?kf 0
                  (zh_states @ zh_lparen @ showNat (length (the (en_statuses e))) @ zh_rparen))
                  (the (en_statuses e))
           else ?kf)"
    using k by (simp add: entityToMarkdown_def Let_def)
  with a b k show ?thesis by simp
qed

lemma statuses_line_in_entity:
  "orEmpty (en_statuses e) \<noteq> [] \<Longrightarrow>
   str ''- '' @ zh_states @ zh_lparen @ showNat (length (orEmpty (en_statuses e))) @ zh_rparen
     \<in> set (entityToMarkdown ls e)"
proof -
  assume "orEmpty (en_statuses e) \<noteq> []"
  then obtain ss where s: "en_statuses e = Some ss" "ss \<noteq> []"
    by (cases "en_statuses e") auto
  then show ?thesis
    by (auto simp: entityToMarkdown_def Let_def push0 entityStatusToMarkdown_app
        intro!: mem_foldl)
qed

lemma fields_line_in_data_model:
  "dm_fields d \<noteq> [] \<Longrightarrow>
   str ''- '' @ zh_fields @ zh_lparen @ showNat (length (dm_fields d)) @ zh_rparen
     \<in> set (dataModelToMarkdown ls d)"
  by (auto simp: dataModelToMarkdown_def Let_def push0 push_app intro!: mem_foldl)

lemma flow_in_module:
  assumes "f \<in> set (mod_flows mo)" and "l \<in> set (flowToMarkdown [] f)"
  shows "l \<in> set (moduleToMarkdown [] mo)"
proof -
  from assms(1) have "mod_flows mo \<noteq> []" by auto
  then have "moduleFlows [] mo =
      foldl flowToMarkdown
        (push [] 0 (zh_flows @ zh_lparen @ showNat (length (mod_flows mo)) @ zh_rparen))
        (mod_flows mo)"
    by (simp add: moduleFlows_def)
  then have "l \<in> set (moduleFlows [] mo)"
    using mem_foldl_elem [where f = flowToMarkdown, OF flowToMarkdown_app assms] by simp
  then show ?thesis by (simp add: moduleToMarkdown_blocks [of "[]"])
qed

lemma machine_in_module:
  assumes "sm \<in> set (mod_state_machines mo)" and "l \<in> set (stateMachineToMarkdown [] sm)"
  shows "l \<in> set (moduleToMarkdown [] mo)"
proof -
  from assms(1) have "mod_state_machines mo \<noteq> []" by auto
  then have "moduleStateMachines [] mo =
      foldl stateMachineToMarkdown
        (push [] 0 (zh_state_machines @ zh_lparen @ showNat (length (mod_state_machines mo)) @
                    zh_rparen))
        (mod_state_machines mo)"
    by (simp add: moduleStateMachines_def)
  then have "l \<in> set (moduleStateMachines [] mo)"
    using mem_foldl_elem [where f = stateMachineToMarkdown, OF stateMachineToMarkdown_app assms] by simp
  then show ?thesis by (simp add: moduleToMarkdown_blocks [of "[]"])
qed

lemma pseudocode_in_module:
  assumes "pc \<in> set (mod_pseudocodes mo)" and "l \<in> set (pseudocodeToMarkdown [] pc)"
  shows "l \<in> set (moduleToMarkdown [] mo)"
proof -
  from assms(1) have "mod_pseudocodes mo \<noteq> []" by auto
  then have "modulePseudocodes [] mo =
      foldl pseudocodeToMarkdown
        (push [] 0 (zh_pseudocodes @ zh_lparen @ showNat (length (mod_pseudocodes mo)) @ zh_rparen))
        (mod_pseudocodes mo)"
    by (simp add: modulePseudocodes_def)
  then have "l \<in> set (modulePseudocodes [] mo)"
    using mem_foldl_elem [where f = pseudocodeToMarkdown, OF pseudocodeToMarkdown_app assms] by simp
  then show ?thesis by (simp add: moduleToMarkdown_blocks [of "[]"])
qed

lemma module_in_outline:
  assumes "mindmapMarkdownLines m = Inr ls" and "mo \<in> set (man_modules m)"
    and "l \<in> set (moduleToMarkdown [] mo)"
  shows "l \<in> set ls"
proof -
  from assms(1) obtain es where es: "man_entities m = Some es"
    by (cases "man_entities m") (auto simp: mindmapMarkdownLines_def Let_def)
  have "l \<in> set (markdownModules m)"
    unfolding markdownModules_def Let_def
    by (rule mem_foldl_elem [where f = moduleToMarkdown, OF moduleToMarkdown_app assms(2,3)])
  then have "l \<in> set (pushTitle (markdownModules m) 2
                        (zh_entities @ zh_lparen @ showNat (length es) @ zh_rparen))"
    by (simp add: pushTitle2)
  then have "l \<in> set (foldl entityToMarkdown
                        (pushTitle (markdownModules m) 2
                           (zh_entities @ zh_lparen @ showNat (length es) @ zh_rparen)) es)"
    by (rule mem_foldl [where f = entityToMarkdown, OF entityToMarkdown_app])
  then show ?thesis
    using mindmapMarkdownLines_Inr [OF es] assms(1) markdownTail_superset by auto
qed

lemma entity_in_outline:
  assumes "mindmapMarkdownLines m = Inr ls" and "man_entities m = Some es" and "e \<in> set es"
    and "l \<in> set (entityToMarkdown [] e)"
  shows "l \<in> set ls"
proof -
  have "l \<in> set (foldl entityToMarkdown
                        (pushTitle (markdownModules m) 2
                           (zh_entities @ zh_lparen @ showNat (length es) @ zh_rparen)) es)"
    by (rule mem_foldl_elem [where f = entityToMarkdown, OF entityToMarkdown_app assms(3,4)])
  then show ?thesis
    using mindmapMarkdownLines_Inr [OF assms(2)] assms(1) markdownTail_superset by auto
qed

lemma data_model_in_tail:
  assumes "d \<in> set (man_data_models m)" and "l \<in> set (dataModelToMarkdown [] d)"
  shows "l \<in> set (markdownTail ls m)"
proof -
  define l1 where "l1 = pushTitle ls 2
    (zh_data_models @ zh_lparen @ showNat (length (man_data_models m)) @ zh_rparen)"
  define l2 where "l2 = foldl dataModelToMarkdown l1 (man_data_models m)"
  define l3 where "l3 = pushTitle l2 2
    (zh_glossary @ zh_lparen @ showNat (length (man_glossary m)) @ zh_rparen)"
  define l4 where "l4 = foldl (\<lambda>lines kv.
                    push lines 0
                      (mdEscape (fst kv) @ zh_lparen @ mdEscape (ge_term (snd kv)) @ zh_rparen @
                       zh_colon @ mdEscape (ge_description (snd kv)))) l3 (man_glossary m)"
  define l5 where "l5 = pushTitle l4 2
    (zh_changelog @ zh_lparen @ showNat (length (man_changelog m)) @ zh_rparen)"
  define l6 where "l6 = foldl (\<lambda>lines c.
             push lines 0
               (mdEscape (cl_date c) @ str '' / '' @ mdEscape (changeTypeText (cl_type c)) @
                zh_colon @ mdEscape (cl_summary c))) l5 (man_changelog m)"
  have tail: "markdownTail ls m = l6"
    by (simp add: markdownTail_def Let_def l1_def l2_def l3_def l4_def l5_def l6_def)
  have "l \<in> set l2"
    unfolding l2_def by (rule mem_foldl_elem [where f = dataModelToMarkdown, OF dataModelToMarkdown_app assms])
  then have "l \<in> set l3" unfolding l3_def by (simp add: pushTitle2)
  then have "l \<in> set l4" unfolding l4_def by (rule mem_foldl [rotated]) (simp add: push_app)
  then have "l \<in> set l5" unfolding l5_def by (simp add: pushTitle2)
  then have "l \<in> set l6" unfolding l6_def by (rule mem_foldl [rotated]) (simp add: push_app)
  with tail show ?thesis by simp
qed

lemma data_model_in_outline:
  assumes "mindmapMarkdownLines m = Inr ls" and "d \<in> set (man_data_models m)"
    and "l \<in> set (dataModelToMarkdown [] d)"
  shows "l \<in> set ls"
proof -
  from assms(1) obtain es where es: "man_entities m = Some es"
    by (cases "man_entities m") (auto simp: mindmapMarkdownLines_def Let_def)
  show ?thesis
    using mindmapMarkdownLines_Inr [OF es] assms(1) data_model_in_tail [OF assms(2,3)] by auto
qed

lemma zero_line_absent:
  assumes "mindmapMarkdownLines m = Inr ls" and "\<not> outlineLine l"
  shows "l \<notin> set ls"
  using mindmapMarkdownLines_line [OF assms(1)] assms(2) by (auto simp: outlineLines_def)

text \<open>
  C4, as stated, fails on the code: for the manifest with the one module \<^verbatim>\<open>a\<close>, which has
  no flows (and no rules, state machines, pseudocodes or code references), the outline is
  the nine lines of \<open>ex_outline\<close>; no line announces the flows with the count 0.
\<close>

theorem outline_omits_empty_module_collections:
  "mindmapMarkdownLines (ex_manifest [ex_module (str ''a'') None] (Some [])) = Inr ex_outline \<and>
   generateMindmapMarkdown (ex_manifest [ex_module (str ''a'') None] (Some [])) =
     Inr (join nl ex_outline @ nl) \<and>
   mod_flows (ex_module (str ''a'') None) = [] \<and>
   str ''- '' @ zh_flows @ zh_lparen @ str ''0'' @ zh_rparen \<notin> set ex_outline"
  by (simp add: generateMindmapMarkdown_def outline_eval ex_outline_def str_def zh_flows_def
      zh_project_description_colon_def zh_updated_at_colon_def)

text \<open>
  C4, amended. For every manifest whose \<^verbatim>\<open>entities\<close> list is present, the emitter returns
  the lines of the outline joined by newlines, a line being an entry of the array
  \<^verbatim>\<open>lines\<close> that the emitter pushes to, and among these lines:

  \<^item> each of the five top-level collections (modules, entities, data models, glossary,
    changelog) has its heading with its count, also when the count is 0;
  \<^item> every state machine of every module has the line that announces its states with
    their count, also when the count is 0;
  \<^item> for every module of the manifest, each of its sub-collections (code references,
    flows, rules, state machines, pseudocodes) that is not empty has the line with its
    count, and so have the steps of each of its flows, the transitions of each of its state
    machines and the steps of each of its pseudocodes, when not empty;
  \<^item> for every entity, its key fields and its statuses, and for every data model, its
    fields, have the line with their count when not empty;
  \<^item> no line announces with the count 0 the code references, flows, rules, state
    machines or pseudocodes of a module, the steps of a flow or a pseudocode, the
    transitions of a state machine, the key fields or statuses of an entity, or the fields
    of a data model: an empty one of these is omitted.
\<close>

theorem outline_announces_counts:
  "man_entities m = Some es \<longrightarrow>
     (\<exists>ls. mindmapMarkdownLines m = Inr ls \<and>
        generateMindmapMarkdown m = Inr (join nl ls @ nl) \<and>
        str ''## '' @ zh_modules @ zh_lparen @ showNat (length (man_modules m)) @ zh_rparen \<in> set ls \<and>
        str ''## '' @ zh_entities @ zh_lparen @ showNat (length es) @ zh_rparen \<in> set ls \<and>
        str ''## '' @ zh_data_models @ zh_lparen @ showNat (length (man_data_models m)) @ zh_rparen
          \<in> set ls \<and>
        str ''## '' @ zh_glossary @ zh_lparen @ showNat (length (man_glossary m)) @ zh_rparen \<in> set ls \<and>
        str ''## '' @ zh_changelog @ zh_lparen @ showNat (length (man_changelog m)) @ zh_rparen
          \<in> set ls \<and>
        (\<forall>mo\<in>set (man_modules m).
           (orEmpty (mod_code_refs mo) \<noteq> [] \<longrightarrow>
              str ''- '' @ zh_code_entries @ zh_lparen @
                showNat (length (orEmpty (mod_code_refs mo))) @ zh_rparen \<in> set ls) \<and>
           (mod_flows mo \<noteq> [] \<longrightarrow>
              str ''- '' @ zh_flows @ zh_lparen @ showNat (length (mod_flows mo)) @ zh_rparen
                \<in> set ls) \<and>
           (mod_rules mo \<noteq> [] \<longrightarrow>
              str ''- '' @ zh_rules @ zh_lparen @ showNat (length (mod_rules mo)) @ zh_rparen
                \<in> set ls) \<and>
           (mod_state_machines mo \<noteq> [] \<longrightarrow>
              str ''- '' @ zh_state_machines @ zh_lparen @
                showNat (length (mod_state_machines mo)) @ zh_rparen \<in> set ls) \<and>
           (mod_pseudocodes mo \<noteq> [] \<longrightarrow>
              str ''- '' @ zh_pseudocodes @ zh_lparen @ showNat (length (mod_pseudocodes mo)) @
                zh_rparen \<in> set ls) \<and>
           (\<forall>f\<in>set (mod_flows mo). fl_steps f \<noteq> [] \<longrightarrow>
              str ''    - '' @ zh_steps @ zh_lparen @ showNat (length (fl_steps f)) @ zh_rparen
                \<in> set ls) \<and>
           (\<forall>sm\<in>set (mod_state_machines mo).
              str ''    - '' @ zh_states @ zh_lparen @ showNat (length (sm_states sm)) @ zh_rparen
                \<in> set ls \<and>
              (sm_transitions sm \<noteq> [] \<longrightarrow>
                 str ''    - '' @ zh_transitions @ zh_lparen @
                   showNat (length (sm_transitions sm)) @ zh_rparen \<in> set ls)) \<and>
           (\<forall>pc\<in>set (mod_pseudocodes mo). pc_steps pc \<noteq> [] \<longrightarrow>
              str ''    - '' @ zh_steps @ zh_lparen @ showNat (length (pc_steps pc)) @ zh_rparen
                \<in> set ls)) \<and>
        (\<forall>e\<in>set es.
           (orEmpty (en_key_fields e) \<noteq> [] \<longrightarrow>
              str ''- '' @ zh_key_fields @ zh_lparen @
                showNat (length (orEmpty (en_key_fields e))) @ zh_rparen \<in> set ls) \<and>
           (orEmpty (en_statuses e) \<noteq> [] \<longrightarrow>
              str ''- '' @ zh_states @ zh_lparen @
                showNat (length (orEmpty (en_statuses e))) @ zh_rparen \<in> set ls)) \<and>
        (\<forall>d\<in>set (man_data_models m). dm_fields d \<noteq> [] \<longrightarrow>
           str ''- '' @ zh_fields @ zh_lparen @ showNat (length (dm_fields d)) @ zh_rparen
             \<in> set ls) \<and>
        str ''- '' @ zh_code_entries @ zh_lparen @ str ''0'' @ zh_rparen \<notin> set ls \<and>
        str ''- '' @ zh_flows @ zh_lparen @ str ''0'' @ zh_rparen \<notin> set ls \<and>
        str ''- '' @ zh_rules @ zh_lparen @ str ''0'' @ zh_rparen \<notin> set ls \<and>
        str ''- '' @ zh_state_machines @ zh_lparen @ str ''0'' @ zh_rparen \<notin> set ls \<and>
        str ''- '' @ zh_pseudocodes @ zh_lparen @ str ''0'' @ zh_rparen \<notin> set ls \<and>
        str ''    - '' @ zh_steps @ zh_lparen @ str ''0'' @ zh_rparen \<notin> set ls \<and>
        str ''    - '' @ zh_transitions @ zh_lparen @ str ''0'' @ zh_rparen \<notin> set ls \<and>
        str ''- '' @ zh_key_fields @ zh_lparen @ str ''0'' @ zh_rparen \<notin> set ls \<and>
        str ''- '' @ zh_states @ zh_lparen @ str ''0'' @ zh_rparen \<notin> set ls \<and>
        str ''- '' @ zh_fields @ zh_lparen @ str ''0'' @ zh_rparen \<notin> set ls)"
proof
  assume e: "man_entities m = Some es"
  let ?l1 = "pushTitle (markdownModules m) 2
               (zh_entities @ zh_lparen @ showNat (length es) @ zh_rparen)"
  let ?l2 = "foldl entityToMarkdown ?l1 es"
  define ls where "ls = markdownTail ?l2 m"
  have L: "mindmapMarkdownLines m = Inr ls"
    using mindmapMarkdownLines_Inr [OF e] by (simp add: ls_def)
  have G: "generateMindmapMarkdown m = Inr (join nl ls @ nl)"
    using L by (simp add: generateMindmapMarkdown_def)
  have "str ''## '' @ zh_modules @ zh_lparen @ showNat (length (man_modules m)) @ zh_rparen
          \<in> set ?l1"
    using markdownModules_heading [of m] by (simp add: pushTitle2)
  then have "str ''## '' @ zh_modules @ zh_lparen @ showNat (length (man_modules m)) @ zh_rparen
          \<in> set ?l2"
    by (rule mem_foldl [where f = entityToMarkdown, OF entityToMarkdown_app])
  then have h1: "str ''## '' @ zh_modules @ zh_lparen @ showNat (length (man_modules m)) @
                   zh_rparen \<in> set ls"
    unfolding ls_def by (rule markdownTail_superset)
  have "str ''## '' @ zh_entities @ zh_lparen @ showNat (length es) @ zh_rparen \<in> set ?l1"
    by (simp add: pushTitle2)
  then have "str ''## '' @ zh_entities @ zh_lparen @ showNat (length es) @ zh_rparen \<in> set ?l2"
    by (rule mem_foldl [where f = entityToMarkdown, OF entityToMarkdown_app])
  then have h2: "str ''## '' @ zh_entities @ zh_lparen @ showNat (length es) @ zh_rparen \<in> set ls"
    unfolding ls_def by (rule markdownTail_superset)
  have h3: "str ''## '' @ zh_data_models @ zh_lparen @ showNat (length (man_data_models m)) @
              zh_rparen \<in> set ls"
    and h4: "str ''## '' @ zh_glossary @ zh_lparen @ showNat (length (man_glossary m)) @
              zh_rparen \<in> set ls"
    and h5: "str ''## '' @ zh_changelog @ zh_lparen @ showNat (length (man_changelog m)) @
              zh_rparen \<in> set ls"
    unfolding ls_def by (rule markdownTail_headings)+
  have mods: "\<forall>mo\<in>set (man_modules m).
           (orEmpty (mod_code_refs mo) \<noteq> [] \<longrightarrow>
              str ''- '' @ zh_code_entries @ zh_lparen @
                showNat (length (orEmpty (mod_code_refs mo))) @ zh_rparen \<in> set ls) \<and>
           (mod_flows mo \<noteq> [] \<longrightarrow>
              str ''- '' @ zh_flows @ zh_lparen @ showNat (length (mod_flows mo)) @ zh_rparen
                \<in> set ls) \<and>
           (mod_rules mo \<noteq> [] \<longrightarrow>
              str ''- '' @ zh_rules @ zh_lparen @ showNat (length (mod_rules mo)) @ zh_rparen
                \<in> set ls) \<and>
           (mod_state_machines mo \<noteq> [] \<longrightarrow>
              str ''- '' @ zh_state_machines @ zh_lparen @
                showNat (length (mod_state_machines mo)) @ zh_rparen \<in> set ls) \<and>
           (mod_pseudocodes mo \<noteq> [] \<longrightarrow>
              str ''- '' @ zh_pseudocodes @ zh_lparen @ showNat (length (mod_pseudocodes mo)) @
                zh_rparen \<in> set ls) \<and>
           (\<forall>f\<in>set (mod_flows mo). fl_steps f \<noteq> [] \<longrightarrow>
              str ''    - '' @ zh_steps @ zh_lparen @ showNat (length (fl_steps f)) @ zh_rparen
                \<in> set ls) \<and>
           (\<forall>sm\<in>set (mod_state_machines mo).
              str ''    - '' @ zh_states @ zh_lparen @ showNat (length (sm_states sm)) @ zh_rparen
                \<in> set ls \<and>
              (sm_transitions sm \<noteq> [] \<longrightarrow>
                 str ''    - '' @ zh_transitions @ zh_lparen @
                   showNat (length (sm_transitions sm)) @ zh_rparen \<in> set ls)) \<and>
           (\<forall>pc\<in>set (mod_pseudocodes mo). pc_steps pc \<noteq> [] \<longrightarrow>
              str ''    - '' @ zh_steps @ zh_lparen @ showNat (length (pc_steps pc)) @ zh_rparen
                \<in> set ls)"
  proof
    fix mo
    assume mo: "mo \<in> set (man_modules m)"
    note out = module_in_outline [OF L mo]
    have cr: "str ''- '' @ zh_code_entries @ zh_lparen @
                showNat (length (orEmpty (mod_code_refs mo))) @ zh_rparen \<in> set ls"
      if "orEmpty (mod_code_refs mo) \<noteq> []"
    proof -
      from that obtain rs where "mod_code_refs mo = Some rs" "rs \<noteq> []"
        by (cases "mod_code_refs mo") auto
      then show ?thesis
        using block_heads(1) [of mo rs] by (intro out) (simp add: moduleToMarkdown_blocks)
    qed
    have fl: "str ''- '' @ zh_flows @ zh_lparen @ showNat (length (mod_flows mo)) @ zh_rparen
                \<in> set ls" if "mod_flows mo \<noteq> []"
      using block_heads(2) [OF that] by (intro out) (simp add: moduleToMarkdown_blocks)
    have ru: "str ''- '' @ zh_rules @ zh_lparen @ showNat (length (mod_rules mo)) @ zh_rparen
                \<in> set ls" if "mod_rules mo \<noteq> []"
      using block_heads(3) [OF that] by (intro out) (simp add: moduleToMarkdown_blocks)
    have sm: "str ''- '' @ zh_state_machines @ zh_lparen @
                showNat (length (mod_state_machines mo)) @ zh_rparen \<in> set ls"
      if "mod_state_machines mo \<noteq> []"
      using block_heads(4) [OF that] by (intro out) (simp add: moduleToMarkdown_blocks)
    have pc: "str ''- '' @ zh_pseudocodes @ zh_lparen @ showNat (length (mod_pseudocodes mo)) @
                zh_rparen \<in> set ls" if "mod_pseudocodes mo \<noteq> []"
      using block_heads(5) [OF that] by (intro out) (simp add: moduleToMarkdown_blocks)
    have st: "\<forall>f\<in>set (mod_flows mo). fl_steps f \<noteq> [] \<longrightarrow>
              str ''    - '' @ zh_steps @ zh_lparen @ showNat (length (fl_steps f)) @ zh_rparen
                \<in> set ls"
      by (blast intro: out flow_in_module steps_line_in_flow)
    have ma: "\<forall>sm\<in>set (mod_state_machines mo).
              str ''    - '' @ zh_states @ zh_lparen @ showNat (length (sm_states sm)) @ zh_rparen
                \<in> set ls \<and>
              (sm_transitions sm \<noteq> [] \<longrightarrow>
                 str ''    - '' @ zh_transitions @ zh_lparen @
                   showNat (length (sm_transitions sm)) @ zh_rparen \<in> set ls)"
      by (blast intro: out machine_in_module states_line_in_machine
          transitions_line_in_machine)
    have ps: "\<forall>pc\<in>set (mod_pseudocodes mo). pc_steps pc \<noteq> [] \<longrightarrow>
              str ''    - '' @ zh_steps @ zh_lparen @ showNat (length (pc_steps pc)) @ zh_rparen
                \<in> set ls"
      by (blast intro: out pseudocode_in_module steps_line_in_pseudocode)
    show "(orEmpty (mod_code_refs mo) \<noteq> [] \<longrightarrow>
              str ''- '' @ zh_code_entries @ zh_lparen @
                showNat (length (orEmpty (mod_code_refs mo))) @ zh_rparen \<in> set ls) \<and>
           (mod_flows mo \<noteq> [] \<longrightarrow>
              str ''- '' @ zh_flows @ zh_lparen @ showNat (length (mod_flows mo)) @ zh_rparen
                \<in> set ls) \<and>
           (mod_rules mo \<noteq> [] \<longrightarrow>
              str ''- '' @ zh_rules @ zh_lparen @ showNat (length (mod_rules mo)) @ zh_rparen
                \<in> set ls) \<and>
           (mod_state_machines mo \<noteq> [] \<longrightarrow>
              str ''- '' @ zh_state_machines @ zh_lparen @
                showNat (length (mod_state_machines mo)) @ zh_rparen \<in> set ls) \<and>
           (mod_pseudocodes mo \<noteq> [] \<longrightarrow>
              str ''- '' @ zh_pseudocodes @ zh_lparen @ showNat (length (mod_pseudocodes mo)) @
                zh_rparen \<in> set ls) \<and>
           (\<forall>f\<in>set (mod_flows mo). fl_steps f \<noteq> [] \<longrightarrow>
              str ''    - '' @ zh_steps @ zh_lparen @ showNat (length (fl_steps f)) @ zh_rparen
                \<in> set ls) \<and>
           (\<forall>sm\<in>set (mod_state_machines mo).
              str ''    - '' @ zh_states @ zh_lparen @ showNat (length (sm_states sm)) @ zh_rparen
                \<in> set ls \<and>
              (sm_transitions sm \<noteq> [] \<longrightarrow>
                 str ''    - '' @ zh_transitions @ zh_lparen @
                   showNat (length (sm_transitions sm)) @ zh_rparen \<in> set ls)) \<and>
           (\<forall>pc\<in>set (mod_pseudocodes mo). pc_steps pc \<noteq> [] \<longrightarrow>
              str ''    - '' @ zh_steps @ zh_lparen @ showNat (length (pc_steps pc)) @ zh_rparen
                \<in> set ls)"
      using cr fl ru sm pc st ma ps by blast
  qed
  have ents: "\<forall>e\<in>set es.
           (orEmpty (en_key_fields e) \<noteq> [] \<longrightarrow>
              str ''- '' @ zh_key_fields @ zh_lparen @
                showNat (length (orEmpty (en_key_fields e))) @ zh_rparen \<in> set ls) \<and>
           (orEmpty (en_statuses e) \<noteq> [] \<longrightarrow>
              str ''- '' @ zh_states @ zh_lparen @
                showNat (length (orEmpty (en_statuses e))) @ zh_rparen \<in> set ls)"
    by (blast intro: entity_in_outline [OF L e] key_fields_line_in_entity
        statuses_line_in_entity)
  have dms: "\<forall>d\<in>set (man_data_models m). dm_fields d \<noteq> [] \<longrightarrow>
           str ''- '' @ zh_fields @ zh_lparen @ showNat (length (dm_fields d)) @ zh_rparen
             \<in> set ls"
    by (blast intro: data_model_in_outline [OF L] fields_line_in_data_model)
  have z0: "str ''- '' @ l @ zh_lparen @ str ''0'' @ zh_rparen \<notin> set ls"
    if "l \<in> {zh_code_entries, zh_flows, zh_rules, zh_state_machines, zh_pseudocodes,
              zh_key_fields, zh_states, zh_fields}" for l
    by (rule zero_line_absent [OF L zero_count0_not_line [OF that]])
  have z2: "str ''    - '' @ l @ zh_lparen @ str ''0'' @ zh_rparen \<notin> set ls"
    if "l \<in> {zh_steps, zh_transitions}" for l
    by (rule zero_line_absent [OF L zero_count2_not_line [OF that]])
  show "\<exists>ls. mindmapMarkdownLines m = Inr ls \<and>
        generateMindmapMarkdown m = Inr (join nl ls @ nl) \<and>
        str ''## '' @ zh_modules @ zh_lparen @ showNat (length (man_modules m)) @ zh_rparen \<in> set ls \<and>
        str ''## '' @ zh_entities @ zh_lparen @ showNat (length es) @ zh_rparen \<in> set ls \<and>
        str ''## '' @ zh_data_models @ zh_lparen @ showNat (length (man_data_models m)) @ zh_rparen
          \<in> set ls \<and>
        str ''## '' @ zh_glossary @ zh_lparen @ showNat (length (man_glossary m)) @ zh_rparen \<in> set ls \<and>
        str ''## '' @ zh_changelog @ zh_lparen @ showNat (length (man_changelog m)) @ zh_rparen
          \<in> set ls \<and>
        (\<forall>mo\<in>set (man_modules m).
           (orEmpty (mod_code_refs mo) \<noteq> [] \<longrightarrow>
              str ''- '' @ zh_code_entries @ zh_lparen @
                showNat (length (orEmpty (mod_code_refs mo))) @ zh_rparen \<in> set ls) \<and>
           (mod_flows mo \<noteq> [] \<longrightarrow>
              str ''- '' @ zh_flows @ zh_lparen @ showNat (length (mod_flows mo)) @ zh_rparen
                \<in> set ls) \<and>
           (mod_rules mo \<noteq> [] \<longrightarrow>
              str ''- '' @ zh_rules @ zh_lparen @ showNat (length (mod_rules mo)) @ zh_rparen
                \<in> set ls) \<and>
           (mod_state_machines mo \<noteq> [] \<longrightarrow>
              str ''- '' @ zh_state_machines @ zh_lparen @
                showNat (length (mod_state_machines mo)) @ zh_rparen \<in> set ls) \<and>
           (mod_pseudocodes mo \<noteq> [] \<longrightarrow>
              str ''- '' @ zh_pseudocodes @ zh_lparen @ showNat (length (mod_pseudocodes mo)) @
                zh_rparen \<in> set ls) \<and>
           (\<forall>f\<in>set (mod_flows mo). fl_steps f \<noteq> [] \<longrightarrow>
              str ''    - '' @ zh_steps @ zh_lparen @ showNat (length (fl_steps f)) @ zh_rparen
                \<in> set ls) \<and>
           (\<forall>sm\<in>set (mod_state_machines mo).
              str ''    - '' @ zh_states @ zh_lparen @ showNat (length (sm_states sm)) @ zh_rparen
                \<in> set ls \<and>
              (sm_transitions sm \<noteq> [] \<longrightarrow>
                 str ''    - '' @ zh_transitions @ zh_lparen @
                   showNat (length (sm_transitions sm)) @ zh_rparen \<in> set ls)) \<and>
           (\<forall>pc\<in>set (mod_pseudocodes mo). pc_steps pc \<noteq> [] \<longrightarrow>
              str ''    - '' @ zh_steps @ zh_lparen @ showNat (length (pc_steps pc)) @ zh_rparen
                \<in> set ls)) \<and>
        (\<forall>e\<in>set es.
           (orEmpty (en_key_fields e) \<noteq> [] \<longrightarrow>
              str ''- '' @ zh_key_fields @ zh_lparen @
                showNat (length (orEmpty (en_key_fields e))) @ zh_rparen \<in> set ls) \<and>
           (orEmpty (en_statuses e) \<noteq> [] \<longrightarrow>
              str ''- '' @ zh_states @ zh_lparen @
                showNat (length (orEmpty (en_statuses e))) @ zh_rparen \<in> set ls)) \<and>
        (\<forall>d\<in>set (man_data_models m). dm_fields d \<noteq> [] \<longrightarrow>
           str ''- '' @ zh_fields @ zh_lparen @ showNat (length (dm_fields d)) @ zh_rparen
             \<in> set ls) \<and>
        str ''- '' @ zh_code_entries @ zh_lparen @ str ''0'' @ zh_rparen \<notin> set ls \<and>
        str ''- '' @ zh_flows @ zh_lparen @ str ''0'' @ zh_rparen \<notin> set ls \<and>
        str ''- '' @ zh_rules @ zh_lparen @ str ''0'' @ zh_rparen \<notin> set ls \<and>
        str ''- '' @ zh_state_machines @ zh_lparen @ str ''0'' @ zh_rparen \<notin> set ls \<and>
        str ''- '' @ zh_pseudocodes @ zh_lparen @ str ''0'' @ zh_rparen \<notin> set ls \<and>
        str ''    - '' @ zh_steps @ zh_lparen @ str ''0'' @ zh_rparen \<notin> set ls \<and>
        str ''    - '' @ zh_transitions @ zh_lparen @ str ''0'' @ zh_rparen \<notin> set ls \<and>
        str ''- '' @ zh_key_fields @ zh_lparen @ str ''0'' @ zh_rparen \<notin> set ls \<and>
        str ''- '' @ zh_states @ zh_lparen @ str ''0'' @ zh_rparen \<notin> set ls \<and>
        str ''- '' @ zh_fields @ zh_lparen @ str ''0'' @ zh_rparen \<notin> set ls"
    by (intro exI [of _ ls] conjI L G h1 h2 h3 h4 h5 mods ents dms z0 z2) simp_all
qed

text \<open>
  The theorem at \<open>ex_rich_manifest\<close>: its two modules, one entity and one data model are
  announced with their counts, and so are the sub-collections of the module \<^verbatim>\<open>order\<close>, the
  two steps of its flow and the states of its state machine, of which there are none; no
  line announces the empty collections of the module \<^verbatim>\<open>a\<close>, the transitions of the state
  machine, the steps of the pseudocode or the statuses of the entity.
\<close>

theorem outline_announces_counts_witness:
  "\<exists>ls. mindmapMarkdownLines ex_rich_manifest = Inr ls \<and>
     generateMindmapMarkdown ex_rich_manifest = Inr (join nl ls @ nl) \<and>
     str ''## '' @ zh_modules @ zh_lparen @ str ''2'' @ zh_rparen \<in> set ls \<and>
     str ''## '' @ zh_entities @ zh_lparen @ str ''1'' @ zh_rparen \<in> set ls \<and>
     str ''## '' @ zh_data_models @ zh_lparen @ str ''1'' @ zh_rparen \<in> set ls \<and>
     str ''## '' @ zh_glossary @ zh_lparen @ str ''0'' @ zh_rparen \<in> set ls \<and>
     str ''## '' @ zh_changelog @ zh_lparen @ str ''0'' @ zh_rparen \<in> set ls \<and>
     str ''- '' @ zh_code_entries @ zh_lparen @ str ''1'' @ zh_rparen \<in> set ls \<and>
     str ''- '' @ zh_flows @ zh_lparen @ str ''1'' @ zh_rparen \<in> set ls \<and>
     str ''- '' @ zh_rules @ zh_lparen @ str ''1'' @ zh_rparen \<in> set ls \<and>
     str ''- '' @ zh_state_machines @ zh_lparen @ str ''1'' @ zh_rparen \<in> set ls \<and>
     str ''- '' @ zh_pseudocodes @ zh_lparen @ str ''1'' @ zh_rparen \<in> set ls \<and>
     str ''    - '' @ zh_steps @ zh_lparen @ str ''2'' @ zh_rparen \<in> set ls \<and>
     str ''    - '' @ zh_states @ zh_lparen @ str ''0'' @ zh_rparen \<in> set ls \<and>
     str ''- '' @ zh_key_fields @ zh_lparen @ str ''1'' @ zh_rparen \<in> set ls \<and>
     str ''- '' @ zh_fields @ zh_lparen @ str ''1'' @ zh_rparen \<in> set ls \<and>
     str ''- '' @ zh_code_entries @ zh_lparen @ str ''0'' @ zh_rparen \<notin> set ls \<and>
     str ''- '' @ zh_flows @ zh_lparen @ str ''0'' @ zh_rparen \<notin> set ls \<and>
     str ''- '' @ zh_rules @ zh_lparen @ str ''0'' @ zh_rparen \<notin> set ls \<and>
     str ''- '' @ zh_state_machines @ zh_lparen @ str ''0'' @ zh_rparen \<notin> set ls \<and>
     str ''- '' @ zh_pseudocodes @ zh_lparen @ str ''0'' @ zh_rparen \<notin> set ls \<and>
     str ''    - '' @ zh_steps @ zh_lparen @ str ''0'' @ zh_rparen \<notin> set ls \<and>
     str ''    - '' @ zh_transitions @ zh_lparen @ str ''0'' @ zh_rparen \<notin> set ls \<and>
     str ''- '' @ zh_key_fields @ zh_lparen @ str ''0'' @ zh_rparen \<notin> set ls \<and>
     str ''- '' @ zh_states @ zh_lparen @ str ''0'' @ zh_rparen \<notin> set ls \<and>
     str ''- '' @ zh_fields @ zh_lparen @ str ''0'' @ zh_rparen \<notin> set ls"
proof -
  have m: "man_entities ex_rich_manifest = Some [ex_entity]"
    "man_modules ex_rich_manifest = [ex_full_module, ex_module (str ''a'') None]"
    "man_data_models ex_rich_manifest = [ex_data_model]"
    "man_glossary ex_rich_manifest = []" "man_changelog ex_rich_manifest = []"
    by (simp_all add: ex_rich_manifest_def)
  have f: "orEmpty (mod_code_refs ex_full_module) \<noteq> []"
    "length (orEmpty (mod_code_refs ex_full_module)) = 1"
    "mod_flows ex_full_module = [ex_flow [ex_step 2 (str ''pay''), ex_step 1 (str ''create'')]]"
    "length (mod_rules ex_full_module) = 1" "mod_rules ex_full_module \<noteq> []"
    "mod_state_machines ex_full_module = [ex_machine [] []]"
    "mod_pseudocodes ex_full_module =
       [\<lparr>pc_id = str ''p1'', pc_name = str ''pay'', pc_description = None,
          pc_params = Some [str ''id''], pc_returns = None, pc_steps = [], pc_calls = [],
          pc_code_ref = None\<rparr>]"
    "length (fl_steps (ex_flow [ex_step 2 (str ''pay''), ex_step 1 (str ''create'')])) = 2"
    "fl_steps (ex_flow [ex_step 2 (str ''pay''), ex_step 1 (str ''create'')]) \<noteq> []"
    "sm_states (ex_machine [] []) = []" "sm_transitions (ex_machine [] []) = []"
    by (simp_all add: ex_full_module_def ex_flow_def ex_machine_def)
  have e: "orEmpty (mod_code_refs (ex_module (str ''a'') None)) = []"
    "mod_flows (ex_module (str ''a'') None) = []" "mod_rules (ex_module (str ''a'') None) = []"
    "mod_state_machines (ex_module (str ''a'') None) = []"
    "mod_pseudocodes (ex_module (str ''a'') None) = []"
    by (simp_all add: ex_module_def)
  have d: "orEmpty (en_key_fields ex_entity) \<noteq> []" "length (orEmpty (en_key_fields ex_entity)) = 1"
    "orEmpty (en_statuses ex_entity) = []"
    "dm_fields ex_data_model \<noteq> []" "length (dm_fields ex_data_model) = 1"
    by (simp_all add: ex_entity_def ex_data_model_def)
  have n: "showNat 0 = str ''0''" "showNat (Suc 0) = str ''1''" "showNat 2 = str ''2''"
    "showNat (Suc (Suc 0)) = str ''2''"
    by (simp_all add: showNat_small str_def)
  show ?thesis
    using outline_announces_counts [of ex_rich_manifest "[ex_entity]"]
    by (simp add: m f e d n)
qed

text \<open>
  C1, evaluated on the code. For a manifest without the optional \<^verbatim>\<open>entities\<close> field,
  \<open>generateMindmapMarkdown\<close> throws a \<^verbatim>\<open>TypeError\<close> (it reads \<^verbatim>\<open>manifest.entities.length\<close>),
  while \<open>generateProjectMindmap\<close>, which guards the field, returns its four lines.
\<close>

theorem outline_throws_without_entities:
  "man_entities (ex_manifest [ex_module (str ''a'') None] None) = None \<and>
   generateMindmapMarkdown (ex_manifest [ex_module (str ''a'') None] None) = Inl TypeError \<and>
   generateProjectMindmap (ex_manifest [ex_module (str ''a'') None] None) =
     join nl [str ''mindmap'',
              str ''  root(('' @ zh_project_colon @ str ''P '' @ zh_lparen @ str ''p'' @ zh_rparen @
                str ''))'',
              str ''    '' @ zh_modules,
              str ''      a '' @ zh_lparen @ str ''a'' @ zh_rparen]"
  by (simp add: generateMindmapMarkdown_def mindmapMarkdownLines_def generateProjectMindmap_def
      projectMindmapLines_def mindmapModule_def uniqueStrings_def newSet_def escapeMindmapText_def
      escapeLabel_def replaceAll_def Let_def ex_manifest_def ex_module_def zh_lparen_def
      zh_rparen_def zh_project_colon_def zh_modules_def str_def)

end
